theory Spec2Isabelle
  imports Complex_Main
begin

section \<open>The life simulation: entities, population and per-entity operations\<close>

text \<open>
  A shallow embedding of \<^verbatim>\<open>the_life_simulation_by_L4DK_v6_21062024.py\<close>.
  Python floats are idealised as real numbers (no rounding, no infinities, no NaN);
  \<^verbatim>\<open>math.hypot\<close> is the Euclidean norm. Python objects have identity: an atom
  lives in a store under a reference, the population is a list of references, and
  \<^verbatim>\<open>==\<close> / \<^verbatim>\<open>!=\<close> on atoms (the class defines no \<^verbatim>\<open>__eq__\<close>) compare references.
  A float division whose divisor is zero raises \<^verbatim>\<open>ZeroDivisionError\<close>; every
  function that divides by a value the code does not guard returns a sum.
\<close>

subsection \<open>Module constants\<close>

definition WINDOW_SIZE :: real where "WINDOW_SIZE = 1200"
definition ATOM_SIZE :: real where "ATOM_SIZE = 5"
definition SPEED :: real where "SPEED = 2"
definition TRAIL_LENGTH :: real where "TRAIL_LENGTH = 10"
definition MAX_VELOCITY :: real where "MAX_VELOCITY = 5"
definition DAMPING_FACTOR :: real where "DAMPING_FACTOR = 995 / 1000"
definition COLLISION_DAMPING :: real where "COLLISION_DAMPING = 98 / 100"
definition FORCE_SCALE :: real where "FORCE_SCALE = 1"
definition GRAVITY :: real where "GRAVITY = 1 / 100"
definition COULOMB :: real where "COULOMB = 1 / 100"
definition FORCE_THRESHOLD :: real where "FORCE_THRESHOLD = 100"
definition MATING_SEASON :: bool where "MATING_SEASON = True"
definition REPRODUCTION_COOLDOWN :: real where "REPRODUCTION_COOLDOWN = 60"
definition FOOD_SIZE :: real where "FOOD_SIZE = 3"

type_synonym rgb = "int \<times> int \<times> int"

definition BLACK :: rgb where "BLACK = (0, 0, 0)"
definition WHITE :: rgb where "WHITE = (255, 255, 255)"
definition GREEN :: rgb where "GREEN = (0, 255, 0)"
definition RED :: rgb where "RED = (255, 0, 0)"
definition BLUE :: rgb where "BLUE = (0, 0, 255)"
definition YELLOW :: rgb where "YELLOW = (255, 255, 0)"
definition PURPLE :: rgb where "PURPLE = (255, 0, 255)"

definition ATOM_COLORS :: "rgb list" where
  "ATOM_COLORS = [RED, YELLOW, BLUE, GREEN, WHITE, BLACK, PURPLE]"

definition FOOD_COLORS :: "rgb list" where
  "FOOD_COLORS = [GREEN, WHITE, BLACK, PURPLE]"

subsection \<open>The Atom class\<close>

text \<open>
  The fields of \<^verbatim>\<open>Atom\<close>, in the order \<^verbatim>\<open>__init__\<close> assigns them. The fields
  \<^verbatim>\<open>x\<close>, \<^verbatim>\<open>y\<close> and \<^verbatim>\<open>size\<close> carry the prefix \<open>atom_\<close>.
\<close>

record atom =
  atom_x :: real
  atom_y :: real
  vx :: real
  vy :: real
  mass :: real
  charge :: real
  atom_size :: real
  color :: rgb
  species :: string
  energy :: real
  hunger :: real
  health :: real
  age :: int
  trail :: "(real \<times> real) list"
  fx :: real
  fy :: real
  in_battle :: bool
  reproduction_cooldown :: real

datatype error = ZeroDivisionError

text \<open>\<^verbatim>\<open>Atom.__init__\<close>: nine assignments from the arguments, nine fixed initial values.
  It has no \<^verbatim>\<open>raise\<close> and no check of any argument.\<close>

definition Atom_init ::
  "real \<Rightarrow> real \<Rightarrow> real \<Rightarrow> real \<Rightarrow> real \<Rightarrow> real \<Rightarrow> real \<Rightarrow> rgb \<Rightarrow> string \<Rightarrow> atom" where
  "Atom_init px py pvx pvy pmass pcharge psize pcolor pspecies =
     \<lparr> atom_x = px, atom_y = py, vx = pvx, vy = pvy, mass = pmass, charge = pcharge,
       atom_size = psize, color = pcolor, species = pspecies,
       energy = 100, hunger = 100, health = 100, age = 0, trail = [],
       fx = 0, fy = 0, in_battle = False, reproduction_cooldown = 0 \<rparr>"

text \<open>\<^verbatim>\<open>create_atom\<close>: the factory. The four random draws (two
  \<^verbatim>\<open>random.randint(0, WINDOW_SIZE)\<close>, two \<^verbatim>\<open>random.uniform(-SPEED, SPEED)\<close>) are
  parameters; food draws only the two positions. An unknown type returns \<^verbatim>\<open>None\<close>.\<close>

definition create_atom :: "string \<Rightarrow> int \<Rightarrow> int \<Rightarrow> real \<Rightarrow> real \<Rightarrow> atom option" where
  "create_atom atom_type rx ry rvx rvy =
     (if atom_type = ''red'' then
        Some (Atom_init (of_int rx) (of_int ry) rvx rvy 1 1 ATOM_SIZE (ATOM_COLORS ! 1) atom_type)
      else if atom_type = ''blue'' then
        Some (Atom_init (of_int rx) (of_int ry) rvx rvy 1 (- 1) ATOM_SIZE (ATOM_COLORS ! 3) atom_type)
      else if atom_type = ''food'' then
        Some (Atom_init (of_int rx) (of_int ry) 0 0 (1 / 10) 0 FOOD_SIZE (FOOD_COLORS ! 1) atom_type)
      else None)"

text \<open>\<^verbatim>\<open>combine_atoms\<close>: colours are averaged with Python's floor division \<^verbatim>\<open>//\<close>,
  the float traits with \<^verbatim>\<open>/\<close>.\<close>

definition combine_atoms :: "atom \<Rightarrow> atom \<Rightarrow> atom" where
  "combine_atoms atom1 atom2 =
     (let new_mass = mass atom1 + mass atom2;
          new_charge = (charge atom1 + charge atom2) / 2;
          new_size = (atom_size atom1 + atom_size atom2) / 2;
          new_color =
            ((fst (color atom1) + fst (color atom2)) div 2,
             (fst (snd (color atom1)) + fst (snd (color atom2))) div 2,
             (snd (snd (color atom1)) + snd (snd (color atom2))) div 2);
          new_health = min (health atom1) (health atom2);
          new_atom = Atom_init (atom_x atom1) (atom_y atom1)
                       ((vx atom1 + vx atom2) / 2) ((vy atom1 + vy atom2) / 2)
                       new_mass new_charge new_size new_color (species atom1)
      in new_atom\<lparr>health := new_health\<rparr>)"

text \<open>\<^verbatim>\<open>Atom.check_bounds\<close>: the two tests are strict, then the position is clamped.\<close>

definition check_bounds :: "atom \<Rightarrow> atom" where
  "check_bounds self =
     (let s1 = (if atom_x self < 0 \<or> atom_x self > WINDOW_SIZE
                then self\<lparr>vx := vx self * (- 1)\<rparr> else self);
          s2 = (if atom_y s1 < 0 \<or> atom_y s1 > WINDOW_SIZE
                then s1\<lparr>vy := vy s1 * (- 1)\<rparr> else s1);
          s3 = s2\<lparr>atom_x := max 0 (min (atom_x s2) WINDOW_SIZE)\<rparr>
      in s3\<lparr>atom_y := max 0 (min (atom_y s3) WINDOW_SIZE)\<rparr>)"

text \<open>\<^verbatim>\<open>Atom.update_position\<close>, one function for each commented block of the method:
  "Update the position based on the velocity", "Apply damping to velocities", "Ensure
  the atom stays within the window bounds" (\<^verbatim>\<open>check_bounds\<close>), "Limit the velocity",
  "Update energy based on kinetic energy", "Update trail". \<^verbatim>\<open>SIMULATION_SPEED\<close> is a
  global the event loop reassigns (0, 0.5, 1, 2), so it is a parameter here.\<close>

definition advance :: "real \<Rightarrow> atom \<Rightarrow> atom" where
  "advance SIMULATION_SPEED self =
     (let s1 = self\<lparr>atom_x := atom_x self + vx self * SIMULATION_SPEED\<rparr>
      in s1\<lparr>atom_y := atom_y s1 + vy s1 * SIMULATION_SPEED\<rparr>)"

definition damp :: "atom \<Rightarrow> atom" where
  "damp self =
     (let s1 = self\<lparr>vx := vx self * DAMPING_FACTOR\<rparr>
      in s1\<lparr>vy := vy s1 * DAMPING_FACTOR\<rparr>)"

definition limit_velocity :: "atom \<Rightarrow> atom" where
  "limit_velocity self =
     (let s1 = self\<lparr>vx := max (- MAX_VELOCITY) (min (vx self) MAX_VELOCITY)\<rparr>
      in s1\<lparr>vy := max (- MAX_VELOCITY) (min (vy s1) MAX_VELOCITY)\<rparr>)"

definition update_energy :: "atom \<Rightarrow> atom" where
  "update_energy self = self\<lparr>energy := (1 / 2) * mass self * ((vx self)\<^sup>2 + (vy self)\<^sup>2)\<rparr>"

definition update_trail :: "atom \<Rightarrow> atom" where
  "update_trail self =
     (let s1 = self\<lparr>trail := trail self @ [(atom_x self, atom_y self)]\<rparr>
      in if real (length (trail s1)) > TRAIL_LENGTH
         then s1\<lparr>trail := tl (trail s1)\<rparr> else s1)"

definition update_position :: "real \<Rightarrow> atom \<Rightarrow> atom" where
  "update_position SIMULATION_SPEED self =
     update_trail (update_energy (limit_velocity (check_bounds
       (damp (advance SIMULATION_SPEED self)))))"

text \<open>\<^verbatim>\<open>Atom.apply_force\<close>: the two divisions by \<^verbatim>\<open>self.mass\<close> raise when it is zero;
  the force accumulator has been updated by then, but the exception ends the pass.\<close>

definition apply_force :: "real \<Rightarrow> real \<Rightarrow> atom \<Rightarrow> error + atom" where
  "apply_force pfx pfy self =
     (let s1 = self\<lparr>fx := fx self + pfx\<rparr>;
          s2 = s1\<lparr>fy := fy s1 + pfy\<rparr>
      in if mass s2 = 0 then Inl ZeroDivisionError
         else (let s3 = s2\<lparr>vx := vx s2 + pfx / mass s2\<rparr>
               in Inr (s3\<lparr>vy := vy s3 + pfy / mass s3\<rparr>)))"

definition reset_force :: "atom \<Rightarrow> atom" where
  "reset_force self = self\<lparr>fx := 0, fy := 0\<rparr>"

definition hypot :: "real \<Rightarrow> real \<Rightarrow> real" where
  "hypot a b = sqrt (a\<^sup>2 + b\<^sup>2)"

definition check_collision :: "atom \<Rightarrow> atom \<Rightarrow> bool" where
  "check_collision self other =
     (let distance = hypot (atom_x self - atom_x other) (atom_y self - atom_y other)
      in distance < atom_size self + atom_size other)"

subsection \<open>The store and the population\<close>

text \<open>
  The population \<^verbatim>\<open>atoms\<close> is one Python list of objects, mutated in place by
  \<^verbatim>\<open>eat\<close> (\<^verbatim>\<open>remove\<close>) and \<^verbatim>\<open>mate_with\<close> (\<^verbatim>\<open>append\<close>). The world holds the
  store of objects, that list as a list of references, and the next unused reference
  (what a call of the constructor allocates).
\<close>

type_synonym ref = nat

record world =
  heap :: "ref \<Rightarrow> atom"
  atoms :: "ref list"
  fresh :: ref

text \<open>One assignment to fields of the object behind a reference.\<close>

definition modify :: "ref \<Rightarrow> (atom \<Rightarrow> atom) \<Rightarrow> world \<Rightarrow> world" where
  "modify r f w = w\<lparr>heap := (heap w)(r := f (heap w r))\<rparr>"

text \<open>\<^verbatim>\<open>Atom.eat\<close>: the test of the loop, the loop over the list, and the method. On the
  first match the caller is fed, \<^verbatim>\<open>atoms.remove(atom)\<close> deletes the first occurrence
  of that object, and \<^verbatim>\<open>break\<close> leaves the loop.\<close>

definition edible :: "world \<Rightarrow> ref \<Rightarrow> ref \<Rightarrow> bool" where
  "edible w self a =
     (species (heap w a) = ''food'' \<and> check_collision (heap w self) (heap w a))"

definition feed :: "atom \<Rightarrow> atom" where
  "feed self =
     (let s1 = self\<lparr>hunger := min 100 (hunger self + 20)\<rparr>
      in s1\<lparr>energy := min 100 (energy s1 + 20)\<rparr>)"

fun eat_loop :: "ref \<Rightarrow> ref list \<Rightarrow> world \<Rightarrow> world" where
  "eat_loop self [] w = w"
| "eat_loop self (a # rest) w =
     (if edible w self a
      then (let w1 = modify self feed w in w1\<lparr>atoms := remove1 a (atoms w1)\<rparr>)
      else eat_loop self rest w)"

definition eat :: "ref \<Rightarrow> world \<Rightarrow> world" where
  "eat self w = eat_loop self (atoms w) w"

text \<open>\<^verbatim>\<open>Atom.resolve_collision\<close>. The division by \<^verbatim>\<open>distance\<close> is guarded by the
  first return; the division by \<^verbatim>\<open>self.mass + other.mass\<close> is not.\<close>

definition resolve_collision :: "ref \<Rightarrow> ref \<Rightarrow> world \<Rightarrow> error + world" where
  "resolve_collision self other w =
     (let nx = atom_x (heap w other) - atom_x (heap w self);
          ny = atom_y (heap w other) - atom_y (heap w self);
          distance = hypot nx ny
      in if distance = 0 then Inr w
         else
          (let nx = nx / distance;
               ny = ny / distance;
               dvx = vx (heap w self) - vx (heap w other);
               dvy = vy (heap w self) - vy (heap w other);
               vn = dvx * nx + dvy * ny
           in if vn > 0 then Inr w
              else if mass (heap w self) + mass (heap w other) = 0 then Inl ZeroDivisionError
              else
               (let impulse = (2 * vn) / (mass (heap w self) + mass (heap w other));
                    w1 = modify self (\<lambda>s. s\<lparr>vx := vx s
                           - impulse * mass (heap w other) * nx * COLLISION_DAMPING\<rparr>) w;
                    w2 = modify self (\<lambda>s. s\<lparr>vy := vy s
                           - impulse * mass (heap w1 other) * ny * COLLISION_DAMPING\<rparr>) w1;
                    w3 = modify other (\<lambda>s. s\<lparr>vx := vx s
                           + impulse * mass (heap w2 self) * nx * COLLISION_DAMPING\<rparr>) w2;
                    w4 = modify other (\<lambda>s. s\<lparr>vy := vy s
                           + impulse * mass (heap w3 self) * ny * COLLISION_DAMPING\<rparr>) w3
                in Inr w4)))"

text \<open>\<^verbatim>\<open>Atom.find_mate\<close> (the method of the class; the second \<^verbatim>\<open>def find_mate\<close> in
  the source sits after a \<^verbatim>\<open>return\<close> inside the first and is never bound).\<close>

fun find_mate :: "ref \<Rightarrow> ref list \<Rightarrow> world \<Rightarrow> ref option" where
  "find_mate self [] w = None"
| "find_mate self (other # rest) w =
     (if other \<noteq> self \<and> health (heap w other) > 70
         \<and> reproduction_cooldown (heap w other) = 0
         \<and> species (heap w other) = species (heap w self)
      then Some other else find_mate self rest w)"

text \<open>\<^verbatim>\<open>Atom.mate_with\<close>: \<^verbatim>\<open>combine_atoms\<close> always returns an object, which is
  truthy, so the offspring is always appended.\<close>

definition mate_with :: "ref \<Rightarrow> ref \<Rightarrow> world \<Rightarrow> world" where
  "mate_with self mate w =
     (let new_atom = fresh w;
          w1 = w\<lparr>heap := (heap w)(new_atom := combine_atoms (heap w self) (heap w mate)),
                 fresh := Suc (fresh w)\<rparr>;
          w2 = w1\<lparr>atoms := atoms w1 @ [new_atom]\<rparr>;
          w3 = modify self (\<lambda>s. s\<lparr>reproduction_cooldown := 60\<rparr>) w2
      in modify mate (\<lambda>s. s\<lparr>reproduction_cooldown := 60\<rparr>) w3)"

text \<open>\<^verbatim>\<open>Atom.reproduce\<close>.\<close>

definition reproduce :: "ref \<Rightarrow> world \<Rightarrow> world" where
  "reproduce self w =
     (if reproduction_cooldown (heap w self) = 0 then
        (case find_mate self (atoms w) w of
           None \<Rightarrow> w
         | Some mate \<Rightarrow>
             (let w1 = mate_with self mate w;
                  w2 = modify self (\<lambda>s. s\<lparr>reproduction_cooldown := REPRODUCTION_COOLDOWN\<rparr>) w1
              in modify mate (\<lambda>s. s\<lparr>reproduction_cooldown := REPRODUCTION_COOLDOWN\<rparr>) w2))
      else w)"

text \<open>\<^verbatim>\<open>Atom.chase\<close> and \<^verbatim>\<open>Atom.wander\<close>. The pair of statements
  \<^verbatim>\<open>self.vx += random.uniform(..); self.vy += random.uniform(..)\<close> occurs in
  \<^verbatim>\<open>wander\<close>, in \<^verbatim>\<open>flee\<close> and in \<^verbatim>\<open>decide_behavior\<close>; it is \<open>nudge\<close>, with
  the two draws as parameters.\<close>

definition chase :: "ref \<Rightarrow> ref \<Rightarrow> world \<Rightarrow> world" where
  "chase self target w =
     (let dx = atom_x (heap w target) - atom_x (heap w self);
          dy = atom_y (heap w target) - atom_y (heap w self);
          distance = hypot dx dy
      in if distance > 0 then
           (let w1 = modify self (\<lambda>s. s\<lparr>vx := vx s + dx / distance * (1 / 10)\<rparr>) w
            in modify self (\<lambda>s. s\<lparr>vy := vy s + dy / distance * (1 / 10)\<rparr>) w1)
         else w)"

definition nudge :: "ref \<Rightarrow> real \<Rightarrow> real \<Rightarrow> world \<Rightarrow> world" where
  "nudge self r1 r2 w =
     (let w1 = modify self (\<lambda>s. s\<lparr>vx := vx s + r1\<rparr>) w
      in modify self (\<lambda>s. s\<lparr>vy := vy s + r2\<rparr>) w1)"

definition wander :: "ref \<Rightarrow> real \<Rightarrow> real \<Rightarrow> world \<Rightarrow> world" where
  "wander self r1 r2 w = nudge self r1 r2 w"

text \<open>\<^verbatim>\<open>Atom.flee\<close>: every colliding atom of the list is resolved against (the caller
  included: its distance to itself is zero, which \<^verbatim>\<open>resolve_collision\<close> returns on);
  an exception of \<^verbatim>\<open>resolve_collision\<close> ends the loop. The two draws of
  \<^verbatim>\<open>random.uniform(-1, 1)\<close> are parameters.\<close>

fun flee_loop :: "ref \<Rightarrow> ref list \<Rightarrow> world \<Rightarrow> error + world" where
  "flee_loop self [] w = Inr w"
| "flee_loop self (a # rest) w =
     (if check_collision (heap w self) (heap w a)
      then (case resolve_collision self a w of
              Inl e \<Rightarrow> Inl e
            | Inr w1 \<Rightarrow> flee_loop self rest w1)
      else flee_loop self rest w)"

definition flee :: "ref \<Rightarrow> real \<Rightarrow> real \<Rightarrow> world \<Rightarrow> error + world" where
  "flee self r1 r2 w =
     (case flee_loop self (atoms w) w of
        Inl e \<Rightarrow> Inl e
      | Inr w1 \<Rightarrow>
          Inr (if health (heap w1 self) < 30 then nudge self r1 r2 w1 else w1))"

text \<open>\<^verbatim>\<open>Atom.find_nearest_food\<close> and \<^verbatim>\<open>Atom.find_nearest_atom\<close>. The accumulator is
  the pair (closest object, closest distance); \<open>None\<close> stands for the initial
  \<^verbatim>\<open>(None, float("inf"))\<close>, below which every distance lies.\<close>

definition closer :: "real \<Rightarrow> (ref \<times> real) option \<Rightarrow> bool" where
  "closer distance acc =
     (case acc of None \<Rightarrow> True | Some (_, closest_distance) \<Rightarrow> distance < closest_distance)"

fun find_nearest_food_loop ::
  "ref \<Rightarrow> ref list \<Rightarrow> world \<Rightarrow> (ref \<times> real) option \<Rightarrow> (ref \<times> real) option" where
  "find_nearest_food_loop self [] w acc = acc"
| "find_nearest_food_loop self (a # rest) w acc =
     (if species (heap w a) = ''food'' then
        (let distance = hypot (atom_x (heap w self) - atom_x (heap w a))
                              (atom_y (heap w self) - atom_y (heap w a))
         in if closer distance acc
            then find_nearest_food_loop self rest w (Some (a, distance))
            else find_nearest_food_loop self rest w acc)
      else find_nearest_food_loop self rest w acc)"

definition find_nearest_food :: "ref \<Rightarrow> world \<Rightarrow> ref option" where
  "find_nearest_food self w = map_option fst (find_nearest_food_loop self (atoms w) w None)"

fun find_nearest_atom_loop ::
  "ref \<Rightarrow> ref list \<Rightarrow> world \<Rightarrow> (ref \<times> real) option \<Rightarrow> (ref \<times> real) option" where
  "find_nearest_atom_loop self [] w acc = acc"
| "find_nearest_atom_loop self (other # rest) w acc =
     (if other \<noteq> self then
        (let distance = hypot (atom_x (heap w self) - atom_x (heap w other))
                              (atom_y (heap w self) - atom_y (heap w other))
         in if closer distance acc
            then find_nearest_atom_loop self rest w (Some (other, distance))
            else find_nearest_atom_loop self rest w acc)
      else find_nearest_atom_loop self rest w acc)"

definition find_nearest_atom :: "ref \<Rightarrow> world \<Rightarrow> ref option" where
  "find_nearest_atom self w = map_option fst (find_nearest_atom_loop self (atoms w) w None)"

text \<open>\<^verbatim>\<open>Atom.decide_behavior\<close>, statement by statement. The first statement is the only
  place of the program that subtracts from \<^verbatim>\<open>reproduction_cooldown\<close>. The block
  "move towards other atoms if not in battle" repeats the bodies of
  \<^verbatim>\<open>find_nearest_atom\<close> and \<^verbatim>\<open>chase\<close> inline and is written with them. The draws
  \<open>r1\<close>, \<open>r2\<close> feed the first perturbation (in \<^verbatim>\<open>flee\<close> or in the \<^verbatim>\<open>else\<close>), the
  draws \<open>r3\<close>, \<open>r4\<close> the final \<^verbatim>\<open>wander\<close>.\<close>

definition cooldown_tick :: "atom \<Rightarrow> atom" where
  "cooldown_tick self =
     (if reproduction_cooldown self > 0
      then self\<lparr>reproduction_cooldown := reproduction_cooldown self - 1\<rparr> else self)"

definition decide_behavior ::
  "ref \<Rightarrow> real \<Rightarrow> real \<Rightarrow> real \<Rightarrow> real \<Rightarrow> world \<Rightarrow> error + world" where
  "decide_behavior self r1 r2 r3 r4 w =
     (let w1 = modify self cooldown_tick w
      in case (if health (heap w1 self) < 30 then flee self r1 r2 w1
               else Inr (nudge self r1 r2 w1)) of
           Inl e \<Rightarrow> Inl e
         | Inr w2 \<Rightarrow>
            (let w3 = (if \<not> in_battle (heap w2 self) then
                         (case find_nearest_atom self w2 of
                            None \<Rightarrow> w2
                          | Some closest_atom \<Rightarrow> chase self closest_atom w2)
                       else w2)
             in Inr
               (if hunger (heap w3 self) < 50 then
                  (case find_nearest_food self w3 of
                     None \<Rightarrow> w3
                   | Some food \<Rightarrow> chase self food w3)
                else if MATING_SEASON \<and> reproduction_cooldown (heap w3 self) = 0
                        \<and> hunger (heap w3 self) > 50 \<and> health (heap w3 self) > 50 then
                  (case find_mate self (atoms w3) w3 of
                     None \<Rightarrow> w3
                   | Some mate \<Rightarrow> chase self mate w3)
                else
                  (case find_nearest_atom self w3 of
                     None \<Rightarrow> wander self r3 r4 w3
                   | Some nearest_atom \<Rightarrow>
                       if health (heap w3 nearest_atom) < health (heap w3 self)
                       then chase self nearest_atom w3
                       else wander self r3 r4 w3))))"

text \<open>The body of the loop of \<^verbatim>\<open>update_atoms\<close> for one atom, up to its call of
  \<^verbatim>\<open>decide_behavior\<close>: the only writes to atom fields outside the class, together with
  \<^verbatim>\<open>EvolvingStructure.grow\<close> (\<^verbatim>\<open>atom.size += self.growth_rate\<close>).\<close>

definition lifecycle :: "ref \<Rightarrow> world \<Rightarrow> world" where
  "lifecycle atom w =
     (let w1 = modify atom (\<lambda>s. s\<lparr>age := age s + 1\<rparr>) w;
          w2 = modify atom (\<lambda>s. s\<lparr>hunger := hunger s - 1 / 10\<rparr>) w1;
          w3 = modify atom (\<lambda>s. s\<lparr>energy := energy s - 2 / 10\<rparr>) w2;
          w4 = (if hunger (heap w3 atom) \<le> 0 \<or> energy (heap w3 atom) \<le> 0
                then modify atom (\<lambda>s. s\<lparr>health := health s - 1 / 2\<rparr>) w3 else w3)
      in if health (heap w4 atom) \<le> 0
         then w4\<lparr>atoms := remove1 atom (atoms w4)\<rparr> else w4)"

definition grow_atom :: "real \<Rightarrow> atom \<Rightarrow> atom" where
  "grow_atom growth_rate atom = atom\<lparr>atom_size := atom_size atom + growth_rate\<rparr>"

subsection \<open>The pairwise force pass of \<^verbatim>\<open>apply_gravity_and_forces\<close>\<close>

text \<open>\<^verbatim>\<open>atom.apply_force(...)\<close> on an object of the store.\<close>

definition apply_force_at :: "ref \<Rightarrow> real \<Rightarrow> real \<Rightarrow> world \<Rightarrow> error + world" where
  "apply_force_at r pfx pfy w =
     (case apply_force pfx pfy (heap w r) of
        Inl e \<Rightarrow> Inl e
      | Inr a \<Rightarrow> Inr (w\<lparr>heap := (heap w)(r := a)\<rparr>))"

text \<open>The body of the inner loop for the pair \<open>(a, b)\<close>.\<close>

definition pair_force :: "ref \<Rightarrow> ref \<Rightarrow> world \<Rightarrow> error + world" where
  "pair_force a b w =
     (let dx = atom_x (heap w b) - atom_x (heap w a);
          dy = atom_y (heap w b) - atom_y (heap w a);
          distance = hypot dx dy
      in if distance = 0 \<or> distance > FORCE_THRESHOLD then Inr w
         else
          (let Fg = GRAVITY * mass (heap w a) * mass (heap w b) / distance\<^sup>2;
               Fe = (if charge (heap w a) = 0 \<or> charge (heap w b) = 0 then 0
                     else COULOMB * charge (heap w a) * charge (heap w b) / distance\<^sup>2);
               Fx = (Fg - Fe) * dx / distance;
               Fy = (Fg - Fe) * dy / distance;
               Fx = Fx * FORCE_SCALE;
               Fy = Fy * FORCE_SCALE
           in case apply_force_at a Fx Fy w of
                Inl e \<Rightarrow> Inl e
              | Inr w1 \<Rightarrow> apply_force_at b (- Fx) (- Fy) w1))"

text \<open>The inner loop \<^verbatim>\<open>for j, b in enumerate(atoms[i + 1:], start=i + 1)\<close> and the
  outer loop \<^verbatim>\<open>for i, a in enumerate(atoms)\<close>; no statement of the pass changes the
  list.\<close>

fun pair_force_inner :: "ref \<Rightarrow> ref list \<Rightarrow> world \<Rightarrow> error + world" where
  "pair_force_inner a [] w = Inr w"
| "pair_force_inner a (b # rest) w =
     (case pair_force a b w of
        Inl e \<Rightarrow> Inl e
      | Inr w1 \<Rightarrow> pair_force_inner a rest w1)"

fun pair_force_outer :: "ref list \<Rightarrow> world \<Rightarrow> error + world" where
  "pair_force_outer [] w = Inr w"
| "pair_force_outer (a # rest) w =
     (case pair_force_inner a rest w of
        Inl e \<Rightarrow> Inl e
      | Inr w1 \<Rightarrow> pair_force_outer rest w1)"

text \<open>The first loop (\<^verbatim>\<open>reset_force\<close> on every atom) followed by the pair loop.\<close>

definition reset_forces :: "world \<Rightarrow> world" where
  "reset_forces w = fold (\<lambda>atom. modify atom reset_force) (atoms w) w"

definition force_pass :: "world \<Rightarrow> error + world" where
  "force_pass w = (let w1 = reset_forces w in pair_force_outer (atoms w1) w1)"

subsection \<open>Calls on the world\<close>

text \<open>The calls that write atoms: every method of \<^verbatim>\<open>Atom\<close> that assigns a field, the
  loop body of \<^verbatim>\<open>update_atoms\<close> and the atom part of \<^verbatim>\<open>EvolvingStructure.grow\<close>.
  A run is a sequence of calls; it stops at the first exception.\<close>

datatype call =
    Reproduce ref
  | Eat ref
  | CheckBounds ref
  | UpdatePosition ref real
  | ApplyForce ref real real
  | ResetForce ref
  | ResolveCollision ref ref
  | Flee ref real real
  | Chase ref ref
  | Wander ref real real
  | MateWith ref ref
  | DecideBehavior ref real real real real
  | Lifecycle ref
  | Grow ref real

fun exec :: "call \<Rightarrow> world \<Rightarrow> error + world" where
  "exec (Reproduce r) w = Inr (reproduce r w)"
| "exec (Eat r) w = Inr (eat r w)"
| "exec (CheckBounds r) w = Inr (modify r check_bounds w)"
| "exec (UpdatePosition r SIMULATION_SPEED) w = Inr (modify r (update_position SIMULATION_SPEED) w)"
| "exec (ApplyForce r pfx pfy) w = apply_force_at r pfx pfy w"
| "exec (ResetForce r) w = Inr (modify r reset_force w)"
| "exec (ResolveCollision r other) w = resolve_collision r other w"
| "exec (Flee r r1 r2) w = flee r r1 r2 w"
| "exec (Chase r target) w = Inr (chase r target w)"
| "exec (Wander r r1 r2) w = Inr (wander r r1 r2 w)"
| "exec (MateWith r mate) w = Inr (mate_with r mate w)"
| "exec (DecideBehavior r r1 r2 r3 r4) w = decide_behavior r r1 r2 r3 r4 w"
| "exec (Lifecycle r) w = Inr (lifecycle r w)"
| "exec (Grow r growth_rate) w = Inr (modify r (grow_atom growth_rate) w)"

fun run :: "call list \<Rightarrow> world \<Rightarrow> error + world" where
  "run [] w = Inr w"
| "run (c # cs) w = (case exec c w of Inl e \<Rightarrow> Inl e | Inr w1 \<Rightarrow> run cs w1)"

text \<open>An atom as \<^verbatim>\<open>Atom.__init__\<close> leaves it: the nine fields that are not arguments hold
  their initial values. A world is constructed when every object of its store is.\<close>

definition constructed :: "atom \<Rightarrow> bool" where
  "constructed a =
     (a = Atom_init (atom_x a) (atom_y a) (vx a) (vy a) (mass a) (charge a)
            (atom_size a) (color a) (species a))"

definition constructed_world :: "world \<Rightarrow> bool" where
  "constructed_world w = (\<forall>r. constructed (heap w r))"

subsection \<open>Geometry of a pair\<close>

text \<open>The quantities \<^verbatim>\<open>resolve_collision\<close> computes for a pair, by name: the distance of
  the centres, the unit normal from \<^verbatim>\<open>self\<close> to \<^verbatim>\<open>other\<close>, the code's \<^verbatim>\<open>vn\<close>
  (velocity of \<^verbatim>\<open>self\<close> relative to \<^verbatim>\<open>other\<close> along that normal) and its
  \<^verbatim>\<open>impulse\<close>.\<close>

definition center_distance :: "world \<Rightarrow> ref \<Rightarrow> ref \<Rightarrow> real" where
  "center_distance w self other =
     hypot (atom_x (heap w other) - atom_x (heap w self))
           (atom_y (heap w other) - atom_y (heap w self))"

definition normal_x :: "world \<Rightarrow> ref \<Rightarrow> ref \<Rightarrow> real" where
  "normal_x w self other =
     (atom_x (heap w other) - atom_x (heap w self)) / center_distance w self other"

definition normal_y :: "world \<Rightarrow> ref \<Rightarrow> ref \<Rightarrow> real" where
  "normal_y w self other =
     (atom_y (heap w other) - atom_y (heap w self)) / center_distance w self other"

definition normal_velocity :: "world \<Rightarrow> ref \<Rightarrow> ref \<Rightarrow> real" where
  "normal_velocity w self other =
     (vx (heap w self) - vx (heap w other)) * normal_x w self other
     + (vy (heap w self) - vy (heap w other)) * normal_y w self other"

definition impulse_of :: "world \<Rightarrow> ref \<Rightarrow> ref \<Rightarrow> real" where
  "impulse_of w self other =
     (2 * normal_velocity w self other) / (mass (heap w self) + mass (heap w other))"

text \<open>Stated from the specification's words, for comparison with the code: two entities
  are separating when the distance of their centres grows as they move, approaching when
  it shrinks. \<open>separation_rate\<close> is the velocity of \<^verbatim>\<open>other\<close> relative to \<^verbatim>\<open>self\<close>
  along the unit normal from \<^verbatim>\<open>self\<close> to \<^verbatim>\<open>other\<close>, the rate at which that distance
  changes; \<open>drift_all t\<close> moves every atom along its velocity for the time \<open>t\<close>, as the
  first two statements of \<^verbatim>\<open>update_position\<close> (\<open>advance\<close>) do.\<close>

definition separation_rate :: "world \<Rightarrow> ref \<Rightarrow> ref \<Rightarrow> real" where
  "separation_rate w self other =
     (vx (heap w other) - vx (heap w self)) * normal_x w self other
     + (vy (heap w other) - vy (heap w self)) * normal_y w self other"

definition drift :: "real \<Rightarrow> atom \<Rightarrow> atom" where
  "drift t a = a\<lparr>atom_x := atom_x a + vx a * t, atom_y := atom_y a + vy a * t\<rparr>"

definition drift_all :: "real \<Rightarrow> world \<Rightarrow> world" where
  "drift_all t w = w\<lparr>heap := (\<lambda>r. drift t (heap w r))\<rparr>"

subsection \<open>Concrete worlds\<close>

text \<open>Small populations on which the theorems below are evaluated. Their atoms are what
  \<^verbatim>\<open>create_atom\<close> builds (a red atom has mass 1, charge 1, size 5 and the colour
  \<^verbatim>\<open>ATOM_COLORS[1]\<close>; food has mass 0.1, charge 0, size 3 and \<^verbatim>\<open>FOOD_COLORS[1]\<close>).\<close>

definition demo_red :: atom where
  "demo_red = Atom_init 0 0 0 0 1 1 ATOM_SIZE YELLOW ''red''"

definition demo_food :: atom where
  "demo_food = Atom_init 3 4 0 0 (1 / 10) 0 FOOD_SIZE WHITE ''food''"

definition demo_world :: world where
  "demo_world = \<lparr> heap = (\<lambda>_. demo_red)(1 := demo_food), atoms = [0, 1], fresh = 2 \<rparr>"

definition demo_world_no_food :: world where
  "demo_world_no_food = \<lparr> heap = (\<lambda>_. demo_red), atoms = [0, 1], fresh = 2 \<rparr>"

definition demo_food_world :: world where
  "demo_food_world = \<lparr> heap = (\<lambda>_. demo_food), atoms = [7], fresh = 8 \<rparr>"

text \<open>Two red atoms one unit apart, the first moving away from the second; and two red
  atoms eight units apart, the first moving towards the second. Both pairs overlap
  (their radii add up to 10), so the collision passes call \<^verbatim>\<open>resolve_collision\<close> on
  them.\<close>

definition separating_pair :: world where
  "separating_pair =
     \<lparr> heap = (\<lambda>_. Atom_init 0 0 (- 1) 0 1 1 ATOM_SIZE YELLOW ''red'')
                 (1 := Atom_init 1 0 0 0 1 1 ATOM_SIZE YELLOW ''red''),
       atoms = [0, 1], fresh = 2 \<rparr>"

definition approaching_pair :: world where
  "approaching_pair =
     \<lparr> heap = (\<lambda>_. Atom_init 0 0 1 0 1 1 ATOM_SIZE YELLOW ''red'')
                 (1 := Atom_init 8 0 0 0 1 1 ATOM_SIZE YELLOW ''red''),
       atoms = [0, 1], fresh = 2 \<rparr>"

subsection \<open>Invariants of runs\<close>

text \<open>The values a reproduction cooldown takes: the whole numbers from 0 to 60.\<close>

definition cooldown_range :: "real set" where
  "cooldown_range = real ` {0..60}"

text \<open>Two worlds agree on the trail and on the cooldown of every object.\<close>

definition same_trails_cooldowns :: "world \<Rightarrow> world \<Rightarrow> bool" where
  "same_trails_cooldowns w w' =
     (\<forall>r. trail (heap w' r) = trail (heap w r)
          \<and> reproduction_cooldown (heap w' r) = reproduction_cooldown (heap w r))"

subsection \<open>The pair force, from the specification's words\<close>

text \<open>Stated from the specification's words, for comparison with the code: the force on
  the entity \<open>p\<close> from the entity \<open>q\<close> at distance \<open>d\<close>. It is zero when \<open>d = 0\<close> or
  \<open>d\<close> exceeds the threshold; otherwise its magnitude is
  \<open>G m\<^sub>p m\<^sub>q / d\<^sup>2 - K q\<^sub>p q\<^sub>q / d\<^sup>2\<close> (the second term taken as 0 when either charge
  is 0), it points along the unit vector from \<open>p\<close> to \<open>q\<close>, and it is scaled by the
  force scale.\<close>

definition spec_pair_force :: "atom \<Rightarrow> atom \<Rightarrow> real \<times> real" where
  "spec_pair_force p q =
     (let d = hypot (atom_x q - atom_x p) (atom_y q - atom_y p)
      in if d = 0 \<or> d > FORCE_THRESHOLD then (0, 0)
         else
          (let magnitude = GRAVITY * mass p * mass q / d\<^sup>2
                 - (if charge p = 0 \<or> charge q = 0 then 0
                    else COULOMB * charge p * charge q / d\<^sup>2)
           in (FORCE_SCALE * magnitude * ((atom_x q - atom_x p) / d),
               FORCE_SCALE * magnitude * ((atom_y q - atom_y p) / d))))"

text \<open>What \<^verbatim>\<open>apply_force\<close> leaves of an atom whose mass is not zero.\<close>

definition pushed :: "real \<Rightarrow> real \<Rightarrow> atom \<Rightarrow> atom" where
  "pushed pfx pfy s =
     s\<lparr>fx := fx s + pfx, fy := fy s + pfy,
       vx := vx s + pfx / mass s, vy := vy s + pfy / mass s\<rparr>"

text \<open>Two worlds agree on what the pair force reads: positions, masses and charges.\<close>

definition same_geometry :: "world \<Rightarrow> world \<Rightarrow> bool" where
  "same_geometry w w' =
     (\<forall>r. atom_x (heap w' r) = atom_x (heap w r) \<and> atom_y (heap w' r) = atom_y (heap w r)
          \<and> mass (heap w' r) = mass (heap w r) \<and> charge (heap w' r) = charge (heap w r))"

section \<open>Properties\<close>

subsection \<open>Basic facts\<close>

lemma heap_modify [simp]:
  "heap (modify r f w) = (heap w)(r := f (heap w r))"
  "atoms (modify r f w) = atoms w"
  "fresh (modify r f w) = fresh w"
  by (simp_all add: modify_def)

lemma hypot_sq: "(hypot a b)\<^sup>2 = a\<^sup>2 + b\<^sup>2"
  by (simp add: hypot_def)

lemma hypot_axis [simp]: "hypot a 0 = \<bar>a\<bar>" "hypot 0 a = \<bar>a\<bar>"
  by (simp_all add: hypot_def)

lemma hypot_3_4 [simp]: "hypot 3 4 = 5" "hypot (- 3) (- 4) = 5"
proof -
  have "sqrt ((3::real)\<^sup>2 + 4\<^sup>2) = sqrt (5\<^sup>2)" by simp
  then show "hypot 3 4 = 5" unfolding hypot_def by (simp del: power2_eq_square)
  then show "hypot (- 3) (- 4) = 5" unfolding hypot_def by simp
qed

lemmas demo_defs = demo_world_def demo_world_no_food_def demo_food_world_def
  demo_red_def demo_food_def Atom_init_def ATOM_SIZE_def FOOD_SIZE_def

subsection \<open>Construction and mass\<close>

text \<open>
  Claim C1 says that constructing an atom with mass \<open>\<le> 0\<close> fails. The constructor has no
  check and no \<^verbatim>\<open>raise\<close>: it is a total function, and at mass \<open>-1\<close> it produces an atom
  whose mass is \<open>-1\<close>.
\<close>

theorem Atom_init_accepts_negative_mass:
  "mass (Atom_init 0 0 0 0 (- 1) 1 5 RED ''red'') = - 1
   \<and> \<not> 0 < mass (Atom_init 0 0 0 0 (- 1) 1 5 RED ''red'')"
  by (simp add: Atom_init_def)

text \<open>
  Claim C1, amended: the constructor stores the mass it is given, whatever its sign, and
  never fails; the atoms the program itself creates have positive mass, because the
  factory \<^verbatim>\<open>create_atom\<close> passes the masses 1.0, 1.0 and 0.1, and the offspring of
  \<^verbatim>\<open>combine_atoms\<close> has the sum of its parents' masses.
\<close>

theorem created_mass_positive:
  "mass (Atom_init px py pvx pvy m q sz c sp) = m
   \<and> (create_atom t rx ry rvx rvy = Some a \<longrightarrow> 0 < mass a)
   \<and> (0 < mass a1 \<and> 0 < mass a2 \<longrightarrow> 0 < mass (combine_atoms a1 a2))"
proof (intro conjI impI)
  show "mass (Atom_init px py pvx pvy m q sz c sp) = m"
    by (simp add: Atom_init_def)
  assume "create_atom t rx ry rvx rvy = Some a"
  then show "0 < mass a"
    by (auto simp: Atom_init_def create_atom_def split: if_splits)
next
  assume "0 < mass a1 \<and> 0 < mass a2"
  then show "0 < mass (combine_atoms a1 a2)"
    by (simp add: combine_atoms_def Atom_init_def Let_def)
qed

theorem created_mass_positive_witness:
  "create_atom ''food'' 3 4 0 0 = Some demo_food \<and> 0 < mass demo_food
   \<and> 0 < mass demo_red \<and> 0 < mass (combine_atoms demo_red demo_food)"
proof -
  have c: "create_atom ''food'' 3 4 0 0 = Some demo_food"
    by (simp add: create_atom_def demo_food_def FOOD_COLORS_def)
  have r: "0 < mass demo_red" by (simp add: demo_defs)
  from c created_mass_positive[of _ _ _ _ _ _ _ _ _ "''food''" 3 4 0 0 demo_food]
  have f: "0 < mass demo_food" by blast
  from r f created_mass_positive[of _ _ _ _ _ _ _ _ _ _ _ _ _ _ _ demo_red demo_food]
  have "0 < mass (combine_atoms demo_red demo_food)" by blast
  with c r f show ?thesis by blast
qed

subsection \<open>Bounds\<close>

lemma check_bounds_fields:
  "vx (check_bounds a) = (if atom_x a < 0 \<or> atom_x a > WINDOW_SIZE then - vx a else vx a)"
  "vy (check_bounds a) = (if atom_y a < 0 \<or> atom_y a > WINDOW_SIZE then - vy a else vy a)"
  "atom_x (check_bounds a) = max 0 (min (atom_x a) WINDOW_SIZE)"
  "atom_y (check_bounds a) = max 0 (min (atom_y a) WINDOW_SIZE)"
  by (simp_all add: check_bounds_def Let_def)

lemma check_bounds_frame:
  "mass (check_bounds a) = mass a" "trail (check_bounds a) = trail a"
  "reproduction_cooldown (check_bounds a) = reproduction_cooldown a"
  by (simp_all add: check_bounds_def Let_def)

text \<open>
  Claim C2 says that an atom at exactly 0 or exactly \<^verbatim>\<open>WINDOW_SIZE\<close> with its velocity
  pointing outward has that velocity component inverted by \<^verbatim>\<open>check_bounds\<close>. The tests
  of the code are strict: at \<open>x = 0\<close> with \<open>vx = -1\<close> the velocity stays \<open>-1\<close>.
\<close>

theorem check_bounds_keeps_velocity_on_boundary:
  "vx (check_bounds (Atom_init 0 600 (- 1) 0 1 1 5 RED ''red'')) = - 1"
  by (simp add: check_bounds_fields Atom_init_def WINDOW_SIZE_def)

text \<open>
  Claim C2, amended: \<^verbatim>\<open>check_bounds\<close> inverts the x (resp. y) velocity component exactly
  when the x (resp. y) position is strictly outside \<open>[0, WINDOW_SIZE]\<close>; at exactly 0 or
  exactly \<^verbatim>\<open>WINDOW_SIZE\<close> velocity and position are left as they are; in every case the
  position ends inside \<open>[0, WINDOW_SIZE]\<close>.
\<close>

theorem check_bounds_reflects_outside_only:
  "vx (check_bounds a) = (if atom_x a < 0 \<or> atom_x a > WINDOW_SIZE then - vx a else vx a)
   \<and> vy (check_bounds a) = (if atom_y a < 0 \<or> atom_y a > WINDOW_SIZE then - vy a else vy a)
   \<and> 0 \<le> atom_x (check_bounds a) \<and> atom_x (check_bounds a) \<le> WINDOW_SIZE
   \<and> 0 \<le> atom_y (check_bounds a) \<and> atom_y (check_bounds a) \<le> WINDOW_SIZE
   \<and> (atom_x a = 0 \<or> atom_x a = WINDOW_SIZE \<longrightarrow>
        vx (check_bounds a) = vx a \<and> atom_x (check_bounds a) = atom_x a)
   \<and> (atom_y a = 0 \<or> atom_y a = WINDOW_SIZE \<longrightarrow>
        vy (check_bounds a) = vy a \<and> atom_y (check_bounds a) = atom_y a)"
  unfolding check_bounds_fields by (auto simp: WINDOW_SIZE_def)

theorem check_bounds_reflects_outside_only_witness:
  "atom_x (Atom_init 0 1200 (- 1) 2 1 1 5 RED ''red'') = 0
   \<and> atom_y (Atom_init 0 1200 (- 1) 2 1 1 5 RED ''red'') = WINDOW_SIZE
   \<and> vx (check_bounds (Atom_init 0 1200 (- 1) 2 1 1 5 RED ''red'')) = - 1
   \<and> vy (check_bounds (Atom_init 0 1200 (- 1) 2 1 1 5 RED ''red'')) = 2
   \<and> vx (check_bounds (Atom_init (- 3) 1201 (- 1) 2 1 1 5 RED ''red'')) = 1
   \<and> vy (check_bounds (Atom_init (- 3) 1201 (- 1) 2 1 1 5 RED ''red'')) = - 2
   \<and> atom_x (check_bounds (Atom_init (- 3) 1201 (- 1) 2 1 1 5 RED ''red'')) = 0
   \<and> atom_y (check_bounds (Atom_init (- 3) 1201 (- 1) 2 1 1 5 RED ''red'')) = 1200"
proof -
  let ?a = "Atom_init 0 1200 (- 1) 2 1 1 5 RED ''red''"
  let ?b = "Atom_init (- 3) 1201 (- 1) 2 1 1 5 RED ''red''"
  have h: "atom_x ?a = 0" "atom_y ?a = WINDOW_SIZE" "vx ?a = - 1" "vy ?a = 2"
    by (simp_all add: Atom_init_def WINDOW_SIZE_def)
  from h check_bounds_reflects_outside_only[of ?a]
  have on: "vx (check_bounds ?a) = - 1" "vy (check_bounds ?a) = 2" by simp_all
  have hb: "atom_x ?b < 0" "atom_y ?b > WINDOW_SIZE" "vx ?b = - 1" "vy ?b = 2"
    by (simp_all add: Atom_init_def WINDOW_SIZE_def)
  from hb check_bounds_reflects_outside_only[of ?b]
  have out: "vx (check_bounds ?b) = 1" "vy (check_bounds ?b) = - 2" by simp_all
  have pos: "atom_x (check_bounds ?b) = 0" "atom_y (check_bounds ?b) = 1200"
    by (simp_all add: check_bounds_fields Atom_init_def WINDOW_SIZE_def)
  from h on out pos show ?thesis by simp
qed

subsection \<open>Eating\<close>

lemma eat_loop_no_match:
  "\<forall>a\<in>set xs. \<not> edible w self a \<Longrightarrow> eat_loop self xs w = w"
  by (induction xs) auto

lemma eat_loop_first:
  "i < length xs \<Longrightarrow> edible w self (xs ! i) \<Longrightarrow> \<forall>j<i. \<not> edible w self (xs ! j) \<Longrightarrow>
   eat_loop self xs w = (modify self feed w)\<lparr>atoms := remove1 (xs ! i) (atoms w)\<rparr>"
proof (induction xs arbitrary: i)
  case Nil
  then show ?case by simp
next
  case (Cons a xs)
  show ?case
  proof (cases i)
    case 0
    with Cons.prems show ?thesis by (simp add: Let_def)
  next
    case (Suc k)
    with Cons.prems have na: "\<not> edible w self a" by auto
    from Suc Cons.prems have "k < length xs" "edible w self (xs ! k)"
      "\<forall>j<k. \<not> edible w self (xs ! j)" by auto
    from Cons.IH[OF this] na Suc show ?thesis by simp
  qed
qed

lemma remove1_first_index:
  "i < length xs \<Longrightarrow> \<forall>j<i. xs ! j \<noteq> xs ! i \<Longrightarrow>
   remove1 (xs ! i) xs = take i xs @ drop (Suc i) xs"
proof (induction xs arbitrary: i)
  case Nil
  then show ?case by simp
next
  case (Cons a xs)
  show ?case
  proof (cases i)
    case 0
    then show ?thesis by simp
  next
    case (Suc k)
    with Cons.prems have "a \<noteq> xs ! k" by auto
    moreover from Suc Cons.prems have "k < length xs" "\<forall>j<k. xs ! j \<noteq> xs ! k" by auto
    ultimately show ?thesis using Cons.IH[of k] Suc by simp
  qed
qed

lemma first_match_exists:
  "a \<in> set xs \<Longrightarrow> P a \<Longrightarrow> \<exists>i<length xs. P (xs ! i) \<and> (\<forall>j<i. \<not> P (xs ! j))"
proof (induction xs)
  case Nil
  then show ?case by simp
next
  case (Cons b xs)
  show ?case
  proof (cases "P b")
    case True
    then have "0 < length (b # xs) \<and> P ((b # xs) ! 0) \<and> (\<forall>j<0. \<not> P ((b # xs) ! j))" by simp
    then show ?thesis by blast
  next
    case False
    with Cons obtain i where i: "i < length xs" "P (xs ! i)" "\<forall>j<i. \<not> P (xs ! j)" by auto
    have "\<forall>j<Suc i. \<not> P ((b # xs) ! j)"
    proof (intro allI impI)
      fix j assume "j < Suc i"
      then show "\<not> P ((b # xs) ! j)" using False i(3) by (cases j) auto
    qed
    with i have "Suc i < length (b # xs) \<and> P ((b # xs) ! Suc i) \<and> (\<forall>j<Suc i. \<not> P ((b # xs) ! j))"
      by simp
    then show ?thesis by blast
  qed
qed

lemma feed_eq:
  "feed s = s\<lparr>hunger := min 100 (hunger s + 20), energy := min 100 (energy s + 20)\<rparr>"
  by (simp add: feed_def Let_def)


text \<open>
  Claim C3. \<open>edible w self a\<close> is the test of the loop: \<open>a\<close> is food-tagged and collides with
  the caller. When \<open>i\<close> is the first index of the population whose atom passes the test,
  \<^verbatim>\<open>eat\<close> returns the world in which the caller's hunger and energy are
  \<open>min 100 (old + 20)\<close>, the list has lost exactly its \<open>i\<close>-th entry, and nothing else
  differs (the result is given as one record, so no other object, no other field of the
  caller and no later entry of the list has changed). Such a first index exists as soon
  as some atom of the population passes the test. When no atom passes the test,
  \<^verbatim>\<open>eat\<close> returns the world unchanged.
\<close>

theorem eat_first_colliding_food:
  "(i < length (atoms w) \<and> edible w self (atoms w ! i)
      \<and> (\<forall>j<i. \<not> edible w self (atoms w ! j)) \<longrightarrow>
    eat self w =
      w\<lparr>heap := (heap w)(self := (heap w self)
                   \<lparr>hunger := min 100 (hunger (heap w self) + 20),
                    energy := min 100 (energy (heap w self) + 20)\<rparr>),
        atoms := take i (atoms w) @ drop (Suc i) (atoms w)\<rparr>)
   \<and> ((\<exists>a\<in>set (atoms w). edible w self a) \<longrightarrow>
        (\<exists>k<length (atoms w). edible w self (atoms w ! k)
           \<and> (\<forall>j<k. \<not> edible w self (atoms w ! j))
           \<and> atoms (eat self w) = take k (atoms w) @ drop (Suc k) (atoms w)
           \<and> length (atoms (eat self w)) + 1 = length (atoms w)))
   \<and> ((\<forall>a\<in>set (atoms w). \<not> edible w self a) \<longrightarrow> eat self w = w)"
proof (intro conjI impI)
  assume "\<exists>a\<in>set (atoms w). edible w self a"
  then obtain a where "a \<in> set (atoms w)" "edible w self a" by blast
  from first_match_exists[OF this(1), of "edible w self", OF this(2)]
  obtain k where k: "k < length (atoms w)" "edible w self (atoms w ! k)"
    "\<forall>j<k. \<not> edible w self (atoms w ! j)" by blast
  then have "\<forall>j<k. atoms w ! j \<noteq> atoms w ! k" by metis
  with k have r: "remove1 (atoms w ! k) (atoms w) = take k (atoms w) @ drop (Suc k) (atoms w)"
    by (simp add: remove1_first_index)
  from k have "eat self w = (modify self feed w)\<lparr>atoms := remove1 (atoms w ! k) (atoms w)\<rparr>"
    unfolding eat_def by (simp add: eat_loop_first)
  then have e: "atoms (eat self w) = take k (atoms w) @ drop (Suc k) (atoms w)"
    by (simp add: r)
  have "length (atoms (eat self w)) + 1 = length (atoms w)"
    unfolding e using k(1) by simp
  with k e show "\<exists>k<length (atoms w). edible w self (atoms w ! k)
           \<and> (\<forall>j<k. \<not> edible w self (atoms w ! j))
           \<and> atoms (eat self w) = take k (atoms w) @ drop (Suc k) (atoms w)
           \<and> length (atoms (eat self w)) + 1 = length (atoms w)" by blast
next
  assume h: "i < length (atoms w) \<and> edible w self (atoms w ! i)
      \<and> (\<forall>j<i. \<not> edible w self (atoms w ! j))"
  then have "\<forall>j<i. atoms w ! j \<noteq> atoms w ! i" by metis
  with h have r: "remove1 (atoms w ! i) (atoms w) = take i (atoms w) @ drop (Suc i) (atoms w)"
    by (simp add: remove1_first_index)
  from h have "eat self w = (modify self feed w)\<lparr>atoms := remove1 (atoms w ! i) (atoms w)\<rparr>"
    unfolding eat_def by (simp add: eat_loop_first)
  then show "eat self w =
      w\<lparr>heap := (heap w)(self := (heap w self)
                   \<lparr>hunger := min 100 (hunger (heap w self) + 20),
                    energy := min 100 (energy (heap w self) + 20)\<rparr>),
        atoms := take i (atoms w) @ drop (Suc i) (atoms w)\<rparr>"
    by (simp add: r modify_def feed_eq)
next
  assume "\<forall>a\<in>set (atoms w). \<not> edible w self a"
  then show "eat self w = w" unfolding eat_def by (rule eat_loop_no_match)
qed

theorem eat_first_colliding_food_witness:
  "eat 0 demo_world =
     demo_world\<lparr>heap := (heap demo_world)(0 := (heap demo_world 0)
                   \<lparr>hunger := min 100 (hunger (heap demo_world 0) + 20),
                    energy := min 100 (energy (heap demo_world 0) + 20)\<rparr>),
        atoms := take 1 (atoms demo_world) @ drop (Suc 1) (atoms demo_world)\<rparr>
   \<and> hunger (heap (eat 0 demo_world) 0) = 100 \<and> atoms (eat 0 demo_world) = [0]
   \<and> eat 0 demo_world_no_food = demo_world_no_food"
proof -
  have a: "(1::nat) < length (atoms demo_world) \<and> edible demo_world 0 (atoms demo_world ! 1)
      \<and> (\<forall>j<1. \<not> edible demo_world 0 (atoms demo_world ! j))"
    by (simp add: demo_defs edible_def check_collision_def)
  have b: "\<forall>a\<in>set (atoms demo_world_no_food). \<not> edible demo_world_no_food 0 a"
    by (simp add: demo_defs edible_def)
  from a eat_first_colliding_food[of 1 demo_world 0]
  have e: "eat 0 demo_world =
     demo_world\<lparr>heap := (heap demo_world)(0 := (heap demo_world 0)
                   \<lparr>hunger := min 100 (hunger (heap demo_world 0) + 20),
                    energy := min 100 (energy (heap demo_world 0) + 20)\<rparr>),
        atoms := take 1 (atoms demo_world) @ drop (Suc 1) (atoms demo_world)\<rparr>" by blast
  have "hunger (heap (eat 0 demo_world) 0) = 100 \<and> atoms (eat 0 demo_world) = [0]"
    unfolding e by (simp add: demo_defs)
  moreover from b eat_first_colliding_food[of 0 demo_world_no_food 0]
  have "eat 0 demo_world_no_food = demo_world_no_food" by blast
  ultimately show ?thesis using e by blast
qed



subsection \<open>Trait combination\<close>

text \<open>
  Claim C4 says that the offspring's colour is the component-wise average of the
  parents' colours. The code averages the integer components with \<^verbatim>\<open>//\<close>: for a red
  parent \<open>(255, 0, 0)\<close> and a black parent \<open>(0, 0, 0)\<close> the offspring's first component is
  127, not the average 127.5.
\<close>

theorem combine_atoms_color_not_average:
  "real_of_int (fst (color (combine_atoms (Atom_init 0 0 0 0 1 1 5 RED ''red'')
                                           (Atom_init 0 0 0 0 1 1 5 BLACK ''red''))))
   \<noteq> (real_of_int (fst (color (Atom_init 0 0 0 0 1 1 5 RED ''red'')))
      + real_of_int (fst (color (Atom_init 0 0 0 0 1 1 5 BLACK ''red'')))) / 2"
  by (simp add: combine_atoms_def Atom_init_def RED_def BLACK_def Let_def)

lemma combine_atoms_fields:
  "mass (combine_atoms a b) = mass a + mass b"
  "charge (combine_atoms a b) = (charge a + charge b) / 2"
  "atom_size (combine_atoms a b) = (atom_size a + atom_size b) / 2"
  "color (combine_atoms a b) =
     ((fst (color a) + fst (color b)) div 2,
      (fst (snd (color a)) + fst (snd (color b))) div 2,
      (snd (snd (color a)) + snd (snd (color b))) div 2)"
  "vx (combine_atoms a b) = (vx a + vx b) / 2"
  "vy (combine_atoms a b) = (vy a + vy b) / 2"
  "health (combine_atoms a b) = min (health a) (health b)"
  "atom_x (combine_atoms a b) = atom_x a"
  "atom_y (combine_atoms a b) = atom_y a"
  "species (combine_atoms a b) = species a"
  "trail (combine_atoms a b) = []"
  "reproduction_cooldown (combine_atoms a b) = 0"
  by (simp_all add: combine_atoms_def Atom_init_def Let_def)

lemma mate_with_fields:
  "atoms (mate_with self mate w) = atoms w @ [fresh w]"
  "fresh (mate_with self mate w) = Suc (fresh w)"
  "heap (mate_with self mate w) =
     ((heap w)(fresh w := combine_atoms (heap w self) (heap w mate)))
       (self := (((heap w)(fresh w := combine_atoms (heap w self) (heap w mate))) self)
                  \<lparr>reproduction_cooldown := 60\<rparr>,
        mate := ((((heap w)(fresh w := combine_atoms (heap w self) (heap w mate)))
                  (self := (((heap w)(fresh w := combine_atoms (heap w self) (heap w mate))) self)
                  \<lparr>reproduction_cooldown := 60\<rparr>)) mate)\<lparr>reproduction_cooldown := 60\<rparr>)"
  by (simp_all add: mate_with_def Let_def)

text \<open>
  Claim C4, amended in the colour only: the offspring of \<^verbatim>\<open>combine_atoms\<close> has the sum of
  the parents' masses, the average of their charges, sizes and velocities, each colour
  component equal to the floor of the average of the parents' components (Python's
  \<^verbatim>\<open>//\<close>: exact when the two components have the same parity, half a unit below
  otherwise), the minimum of their healths, and the first parent's position and species.
  \<^verbatim>\<open>mate_with\<close> appends a newly allocated object to the population, and that object is
  this offspring (for parents that are objects allocated before, \<open>< fresh w\<close>).
\<close>

theorem combine_atoms_traits:
  "mass (combine_atoms a b) = mass a + mass b
   \<and> charge (combine_atoms a b) = (charge a + charge b) / 2
   \<and> atom_size (combine_atoms a b) = (atom_size a + atom_size b) / 2
   \<and> color (combine_atoms a b) =
       ((fst (color a) + fst (color b)) div 2,
        (fst (snd (color a)) + fst (snd (color b))) div 2,
        (snd (snd (color a)) + snd (snd (color b))) div 2)
   \<and> vx (combine_atoms a b) = (vx a + vx b) / 2
   \<and> vy (combine_atoms a b) = (vy a + vy b) / 2
   \<and> health (combine_atoms a b) = min (health a) (health b)
   \<and> atom_x (combine_atoms a b) = atom_x a
   \<and> atom_y (combine_atoms a b) = atom_y a
   \<and> species (combine_atoms a b) = species a
   \<and> atoms (mate_with self mate w) = atoms w @ [fresh w]
   \<and> (self < fresh w \<and> mate < fresh w \<longrightarrow>
        heap (mate_with self mate w) (fresh w) = combine_atoms (heap w self) (heap w mate))"
proof -
  have "self < fresh w \<and> mate < fresh w \<longrightarrow>
        heap (mate_with self mate w) (fresh w) = combine_atoms (heap w self) (heap w mate)"
    by (simp add: mate_with_fields(3))
  then show ?thesis
    by (simp only: combine_atoms_fields mate_with_fields(1) simp_thms)
qed

theorem combine_atoms_traits_witness:
  "(0::nat) < fresh demo_world \<and> 1 < fresh demo_world
   \<and> atoms (mate_with 0 1 demo_world) = [0, 1, 2]
   \<and> heap (mate_with 0 1 demo_world) 2 = combine_atoms demo_red demo_food
   \<and> mass (heap (mate_with 0 1 demo_world) 2) = 11 / 10
   \<and> color (heap (mate_with 0 1 demo_world) 2) = (255, 255, 127)"
proof -
  have h: "(0::nat) < fresh demo_world \<and> 1 < fresh demo_world"
    by (simp add: demo_world_def)
  from h combine_atoms_traits[of demo_red demo_food 0 1 demo_world]
  have a: "atoms (mate_with 0 1 demo_world) = atoms demo_world @ [fresh demo_world]"
    and b: "heap (mate_with 0 1 demo_world) (fresh demo_world)
             = combine_atoms (heap demo_world 0) (heap demo_world 1)"
    and m: "mass (combine_atoms demo_red demo_food) = mass demo_red + mass demo_food"
    and c: "color (combine_atoms demo_red demo_food) =
       ((fst (color demo_red) + fst (color demo_food)) div 2,
        (fst (snd (color demo_red)) + fst (snd (color demo_food))) div 2,
        (snd (snd (color demo_red)) + snd (snd (color demo_food))) div 2)"
    by blast+
  have f: "fresh demo_world = 2" "heap demo_world 0 = demo_red" "heap demo_world 1 = demo_food"
    "atoms demo_world = [0, 1]"
    by (simp_all add: demo_world_def)
  have mv: "mass demo_red + mass demo_food = 11 / 10"
    by (simp add: demo_defs)
  have cv: "((fst (color demo_red) + fst (color demo_food)) div 2,
        (fst (snd (color demo_red)) + fst (snd (color demo_food))) div 2,
        (snd (snd (color demo_red)) + snd (snd (color demo_food))) div 2) = (255, 255, 127)"
    by (simp add: demo_defs YELLOW_def WHITE_def)
  from a b m c show ?thesis unfolding f mv cv using h unfolding f by simp
qed

subsection \<open>Collision response\<close>

lemma resolve_collision_unfold:
  "resolve_collision self other w =
     (if center_distance w self other = 0 then Inr w
      else if normal_velocity w self other > 0 then Inr w
      else if mass (heap w self) + mass (heap w other) = 0 then Inl ZeroDivisionError
      else Inr (modify other (\<lambda>s. s\<lparr>vy := vy s
                    + impulse_of w self other * mass (heap w self) * normal_y w self other * COLLISION_DAMPING\<rparr>)
               (modify other (\<lambda>s. s\<lparr>vx := vx s
                    + impulse_of w self other * mass (heap w self) * normal_x w self other * COLLISION_DAMPING\<rparr>)
               (modify self (\<lambda>s. s\<lparr>vy := vy s
                    - impulse_of w self other * mass (heap w other) * normal_y w self other * COLLISION_DAMPING\<rparr>)
               (modify self (\<lambda>s. s\<lparr>vx := vx s
                    - impulse_of w self other * mass (heap w other) * normal_x w self other * COLLISION_DAMPING\<rparr>) w)))))"
proof (cases "self = other")
  case True
  then have "center_distance w self other = 0" by (simp add: center_distance_def)
  then show ?thesis by (simp add: resolve_collision_def center_distance_def Let_def)
next
  case False
  then show ?thesis
    by (simp add: resolve_collision_def center_distance_def normal_velocity_def
        normal_x_def normal_y_def impulse_of_def Let_def)
qed

text \<open>The code's \<^verbatim>\<open>vn\<close> is the negated rate of separation: \<^verbatim>\<open>vn > 0\<close> holds exactly
  when the centres are getting closer.\<close>

lemma separation_rate_normal_velocity:
  "separation_rate w self other = - normal_velocity w self other"
  by (simp add: separation_rate_def normal_velocity_def algebra_simps)

lemma scale_back:
  fixes d :: real
  shows "d \<noteq> 0 \<Longrightarrow> d * (u * (a / d) + v * (b / d)) = u * a + v * b"
  by (simp add: field_simps)

text \<open>\<open>separation_rate\<close> is the rate of change of the distance of the centres: after the
  atoms have moved along their velocities for the time \<open>t\<close>, the squared distance is
  \<open>d\<^sup>2 + 2 t d rate + t\<^sup>2 |v\<^sub>o\<^sub>t\<^sub>h\<^sub>e\<^sub>r - v\<^sub>s\<^sub>e\<^sub>l\<^sub>f|\<^sup>2\<close>.\<close>

lemma center_distance_drift:
  "(center_distance (drift_all t w) self other)\<^sup>2 =
     (center_distance w self other)\<^sup>2
     + 2 * t * (center_distance w self other * separation_rate w self other)
     + t\<^sup>2 * ((vx (heap w other) - vx (heap w self))\<^sup>2 + (vy (heap w other) - vy (heap w self))\<^sup>2)"
proof -
  let ?dx = "atom_x (heap w other) - atom_x (heap w self)"
  let ?dy = "atom_y (heap w other) - atom_y (heap w self)"
  let ?ux = "vx (heap w other) - vx (heap w self)"
  let ?uy = "vy (heap w other) - vy (heap w self)"
  have a: "(center_distance (drift_all t w) self other)\<^sup>2 = (?dx + t * ?ux)\<^sup>2 + (?dy + t * ?uy)\<^sup>2"
    unfolding center_distance_def hypot_sq by (simp add: drift_all_def drift_def algebra_simps)
  have c: "(center_distance w self other)\<^sup>2 = ?dx\<^sup>2 + ?dy\<^sup>2"
    unfolding center_distance_def hypot_sq ..
  have b: "center_distance w self other * separation_rate w self other = ?ux * ?dx + ?uy * ?dy"
  proof (cases "center_distance w self other = 0")
    case True
    then have "?dx\<^sup>2 + ?dy\<^sup>2 = 0" using c by simp
    then have "?dx = 0" "?dy = 0" by (simp_all add: sum_power2_eq_zero_iff)
    with True show ?thesis by simp
  next
    case False
    then show ?thesis
      unfolding separation_rate_def normal_x_def normal_y_def by (rule scale_back)
  qed
  show ?thesis unfolding a b c by (simp add: power2_eq_square algebra_simps)
qed

lemma unit_normal:
  assumes "center_distance w self other \<noteq> 0"
  shows "(normal_x w self other)\<^sup>2 + (normal_y w self other)\<^sup>2 = 1"
proof -
  let ?dx = "atom_x (heap w other) - atom_x (heap w self)"
  let ?dy = "atom_y (heap w other) - atom_y (heap w self)"
  let ?d = "center_distance w self other"
  have d2: "?d\<^sup>2 = ?dx\<^sup>2 + ?dy\<^sup>2"
    by (simp add: center_distance_def hypot_def)
  have "(normal_x w self other)\<^sup>2 + (normal_y w self other)\<^sup>2 = (?dx\<^sup>2 + ?dy\<^sup>2) / ?d\<^sup>2"
    by (simp add: normal_x_def normal_y_def power_divide add_divide_distrib)
  also have "\<dots> = ?d\<^sup>2 / ?d\<^sup>2" by (simp only: d2)
  also have "\<dots> = 1" using assms by simp
  finally show ?thesis .
qed

text \<open>What the code does, in its own terms: it returns at once when the centres coincide
  or when \<^verbatim>\<open>vn > 0\<close>; at \<^verbatim>\<open>vn = 0\<close> it goes on and applies an impulse of zero.\<close>

lemma resolve_collision_returns_unchanged:
  "(center_distance w self other = 0 \<or> 0 < normal_velocity w self other
      \<longrightarrow> resolve_collision self other w = Inr w)
   \<and> (normal_velocity w self other = 0 \<and> mass (heap w self) + mass (heap w other) \<noteq> 0
      \<longrightarrow> resolve_collision self other w = Inr w)"
proof (intro conjI impI)
  assume "center_distance w self other = 0 \<or> 0 < normal_velocity w self other"
  then show "resolve_collision self other w = Inr w"
    by (auto simp: resolve_collision_unfold)
next
  assume a: "normal_velocity w self other = 0 \<and> mass (heap w self) + mass (heap w other) \<noteq> 0"
  then have "impulse_of w self other = 0" by (simp add: impulse_of_def)
  with a show "resolve_collision self other w = Inr w"
    by (simp add: resolve_collision_unfold modify_def)
qed

text \<open>On the branch that applies the impulse (\<^verbatim>\<open>vn \<le> 0\<close>, here \<open>vn < 0\<close>), the two velocity
  changes are opposite multiples of the unit normal, each scaled by the other atom's mass
  and by \<^verbatim>\<open>COLLISION_DAMPING\<close>; the total momentum is unchanged and the normal velocity
  is multiplied by \<open>1 - 2 * COLLISION_DAMPING\<close>.\<close>

lemma resolve_collision_impulse_branch:
  assumes "center_distance w self other \<noteq> 0"
    and "normal_velocity w self other < 0"
    and "mass (heap w self) + mass (heap w other) \<noteq> 0"
  shows "\<exists>w'. resolve_collision self other w = Inr w'
    \<and> vx (heap w' self) = vx (heap w self)
         - impulse_of w self other * mass (heap w other) * normal_x w self other * COLLISION_DAMPING
    \<and> vy (heap w' self) = vy (heap w self)
         - impulse_of w self other * mass (heap w other) * normal_y w self other * COLLISION_DAMPING
    \<and> vx (heap w' other) = vx (heap w other)
         + impulse_of w self other * mass (heap w self) * normal_x w self other * COLLISION_DAMPING
    \<and> vy (heap w' other) = vy (heap w other)
         + impulse_of w self other * mass (heap w self) * normal_y w self other * COLLISION_DAMPING
    \<and> mass (heap w' self) * vx (heap w' self) + mass (heap w' other) * vx (heap w' other)
         = mass (heap w self) * vx (heap w self) + mass (heap w other) * vx (heap w other)
    \<and> mass (heap w' self) * vy (heap w' self) + mass (heap w' other) * vy (heap w' other)
         = mass (heap w self) * vy (heap w self) + mass (heap w other) * vy (heap w other)
    \<and> normal_velocity w' self other = (1 - 2 * COLLISION_DAMPING) * normal_velocity w self other"
proof -
  from assms(1) have ne: "self \<noteq> other" by (auto simp: center_distance_def)
  let ?J = "impulse_of w self other"
  let ?nx = "normal_x w self other"
  let ?ny = "normal_y w self other"
  let ?D = COLLISION_DAMPING
  let ?m1 = "mass (heap w self)"
  let ?m2 = "mass (heap w other)"
  define w' where "w' = modify other (\<lambda>s. s\<lparr>vy := vy s + ?J * ?m1 * ?ny * ?D\<rparr>)
               (modify other (\<lambda>s. s\<lparr>vx := vx s + ?J * ?m1 * ?nx * ?D\<rparr>)
               (modify self (\<lambda>s. s\<lparr>vy := vy s - ?J * ?m2 * ?ny * ?D\<rparr>)
               (modify self (\<lambda>s. s\<lparr>vx := vx s - ?J * ?m2 * ?nx * ?D\<rparr>) w)))"
  have r: "resolve_collision self other w = Inr w'"
    using assms by (simp add: resolve_collision_unfold w'_def)
  have v: "vx (heap w' self) = vx (heap w self) - ?J * ?m2 * ?nx * ?D"
    "vy (heap w' self) = vy (heap w self) - ?J * ?m2 * ?ny * ?D"
    "vx (heap w' other) = vx (heap w other) + ?J * ?m1 * ?nx * ?D"
    "vy (heap w' other) = vy (heap w other) + ?J * ?m1 * ?ny * ?D"
    "mass (heap w' self) = ?m1" "mass (heap w' other) = ?m2"
    using ne by (simp_all add: w'_def)
  have pos: "atom_x (heap w' self) = atom_x (heap w self)" "atom_y (heap w' self) = atom_y (heap w self)"
    "atom_x (heap w' other) = atom_x (heap w other)" "atom_y (heap w' other) = atom_y (heap w other)"
    using ne by (simp_all add: w'_def)
  have n: "normal_x w' self other = ?nx" "normal_y w' self other = ?ny"
    by (simp_all add: normal_x_def normal_y_def center_distance_def pos)
  have px: "?m1 * vx (heap w' self) + ?m2 * vx (heap w' other) = ?m1 * vx (heap w self) + ?m2 * vx (heap w other)"
    by (simp add: v algebra_simps)
  have py: "?m1 * vy (heap w' self) + ?m2 * vy (heap w' other) = ?m1 * vy (heap w self) + ?m2 * vy (heap w other)"
    by (simp add: v algebra_simps)
  have J: "?J * (?m1 + ?m2) = 2 * normal_velocity w self other"
    using assms(3) by (simp add: impulse_of_def)
  have u: "?nx * ?nx + ?ny * ?ny = 1"
    using unit_normal[OF assms(1)] by (simp add: power2_eq_square)
  have "normal_velocity w' self other
      = normal_velocity w self other - ?D * (?J * (?m1 + ?m2)) * (?nx * ?nx + ?ny * ?ny)"
    unfolding normal_velocity_def n v by (simp add: algebra_simps)
  also have "\<dots> = (1 - 2 * ?D) * normal_velocity w self other"
    unfolding J u by (simp add: algebra_simps)
  finally have nv: "normal_velocity w' self other = (1 - 2 * ?D) * normal_velocity w self other" .
  show ?thesis
    apply (rule exI[of _ w'])
    using r v px py nv by simp
qed

text \<open>In the specification's terms the two branches are the wrong way round. A pair that
  is approaching is returned unchanged, whatever its masses.\<close>

lemma approaching_pair_is_returned_unchanged:
  "center_distance w self other \<noteq> 0 \<Longrightarrow> separation_rate w self other < 0 \<Longrightarrow>
   resolve_collision self other w = Inr w"
  by (simp add: resolve_collision_unfold separation_rate_normal_velocity)

text \<open>And a pair that is separating has its velocities changed.\<close>

lemma separating_pair_is_changed:
  assumes d: "center_distance w self other \<noteq> 0"
    and s: "0 < separation_rate w self other"
    and m: "mass (heap w self) + mass (heap w other) \<noteq> 0"
    and mo: "mass (heap w other) \<noteq> 0"
  shows "\<exists>w'. resolve_collision self other w = Inr w'
    \<and> (vx (heap w' self) \<noteq> vx (heap w self) \<or> vy (heap w' self) \<noteq> vy (heap w self))"
proof -
  from s have vn: "normal_velocity w self other < 0"
    by (simp add: separation_rate_normal_velocity)
  from resolve_collision_impulse_branch[OF d vn m] obtain w' where
    r: "resolve_collision self other w = Inr w'"
    and vx': "vx (heap w' self) = vx (heap w self)
         - impulse_of w self other * mass (heap w other) * normal_x w self other * COLLISION_DAMPING"
    and vy': "vy (heap w' self) = vy (heap w self)
         - impulse_of w self other * mass (heap w other) * normal_y w self other * COLLISION_DAMPING"
    by blast
  have J: "impulse_of w self other \<noteq> 0" using vn m by (simp add: impulse_of_def)
  have D: "COLLISION_DAMPING \<noteq> 0" by (simp add: COLLISION_DAMPING_def)
  have "normal_x w self other \<noteq> 0 \<or> normal_y w self other \<noteq> 0"
    using unit_normal[OF d] by auto
  then have "vx (heap w' self) \<noteq> vx (heap w self) \<or> vy (heap w' self) \<noteq> vy (heap w self)"
    unfolding vx' vy' using J D mo by auto
  with r show ?thesis by blast
qed

lemmas pair_defs = separating_pair_def approaching_pair_def Atom_init_def ATOM_SIZE_def

lemma separating_pair_geometry:
  "center_distance separating_pair 0 1 = 1" "normal_x separating_pair 0 1 = 1"
  "normal_y separating_pair 0 1 = 0" "normal_velocity separating_pair 0 1 = - 1"
  "impulse_of separating_pair 0 1 = - 1"
  by (simp_all add: impulse_of_def normal_velocity_def normal_x_def normal_y_def
      center_distance_def pair_defs)

lemma approaching_pair_geometry:
  "center_distance approaching_pair 0 1 = 8" "normal_x approaching_pair 0 1 = 1"
  "normal_y approaching_pair 0 1 = 0" "normal_velocity approaching_pair 0 1 = 1"
  by (simp_all add: normal_velocity_def normal_x_def normal_y_def
      center_distance_def pair_defs)

text \<open>
  Claim C5 says that \<^verbatim>\<open>resolve_collision\<close> changes nothing when the entities are
  separating or stationary along the normal. The comment of the code says the same
  (\<^verbatim>\<open># If velocities are separating, no collision\<close>), but its test \<^verbatim>\<open>vn > 0\<close> is taken on
  the velocity of \<^verbatim>\<open>self\<close> relative to \<^verbatim>\<open>other\<close>, which is positive when the two are
  approaching. On the overlapping pair below the first atom moves away from the second
  at speed 1 (the distance of the centres is 1 and becomes 2 after one unit of time), and
  \<^verbatim>\<open>resolve_collision\<close> changes both velocities: \<open>-1\<close> becomes \<open>-1/50\<close> and \<open>0\<close> becomes
  \<open>-49/50\<close>, so that the second atom now runs after the first.
\<close>

theorem resolve_collision_changes_separating_pair:
  "check_collision (heap separating_pair 0) (heap separating_pair 1)
   \<and> center_distance separating_pair 0 1 = 1
   \<and> separation_rate separating_pair 0 1 = 1
   \<and> center_distance (drift_all 1 separating_pair) 0 1 = 2
   \<and> vx (heap separating_pair 0) = - 1 \<and> vx (heap separating_pair 1) = 0
   \<and> resolve_collision 0 1 separating_pair =
       Inr (separating_pair\<lparr>heap := (heap separating_pair)
              (0 := (heap separating_pair 0)\<lparr>vx := - (1 / 50)\<rparr>,
               1 := (heap separating_pair 1)\<lparr>vx := - (49 / 50)\<rparr>)\<rparr>)"
proof -
  have c: "check_collision (heap separating_pair 0) (heap separating_pair 1)"
    by (simp add: check_collision_def pair_defs)
  have s: "separation_rate separating_pair 0 1 = 1"
    unfolding separation_rate_normal_velocity separating_pair_geometry by simp
  have dd: "center_distance (drift_all 1 separating_pair) 0 1 = 2"
    by (simp add: center_distance_def drift_all_def drift_def pair_defs)
  have v: "vx (heap separating_pair 0) = - 1" "vx (heap separating_pair 1) = 0"
    "vy (heap separating_pair 0) = 0" "vy (heap separating_pair 1) = 0"
    "mass (heap separating_pair 0) = 1" "mass (heap separating_pair 1) = 1"
    by (simp_all add: pair_defs)
  have r: "resolve_collision 0 1 separating_pair =
       Inr (separating_pair\<lparr>heap := (heap separating_pair)
              (0 := (heap separating_pair 0)\<lparr>vx := - (1 / 50)\<rparr>,
               1 := (heap separating_pair 1)\<lparr>vx := - (49 / 50)\<rparr>)\<rparr>)"
    unfolding resolve_collision_unfold separating_pair_geometry
    using v by (simp add: modify_def COLLISION_DAMPING_def fun_upd_twist)
  from c separating_pair_geometry(1) s dd v(1,2) r show ?thesis by blast
qed

text \<open>
  Claim C6 says that a pair with distinct centres that is approaching receives
  equal-and-opposite impulses. On the overlapping pair below the first atom moves
  towards the second at speed 1 (the distance of the centres is 8 and becomes 7 after
  one unit of time), the code's \<^verbatim>\<open>vn\<close> is \<open>1 > 0\<close>, and \<^verbatim>\<open>resolve_collision\<close> returns
  without any change: no impulse is applied to an approaching pair.
\<close>

theorem resolve_collision_ignores_approaching_pair:
  "check_collision (heap approaching_pair 0) (heap approaching_pair 1)
   \<and> center_distance approaching_pair 0 1 = 8
   \<and> separation_rate approaching_pair 0 1 = - 1
   \<and> center_distance (drift_all 1 approaching_pair) 0 1 = 7
   \<and> resolve_collision 0 1 approaching_pair = Inr approaching_pair"
proof -
  have c: "check_collision (heap approaching_pair 0) (heap approaching_pair 1)"
    by (simp add: check_collision_def pair_defs)
  have s: "separation_rate approaching_pair 0 1 = - 1"
    unfolding separation_rate_normal_velocity approaching_pair_geometry by simp
  have dd: "center_distance (drift_all 1 approaching_pair) 0 1 = 7"
    by (simp add: center_distance_def drift_all_def drift_def pair_defs)
  have r: "resolve_collision 0 1 approaching_pair = Inr approaching_pair"
    unfolding resolve_collision_unfold approaching_pair_geometry by simp
  from c approaching_pair_geometry(1) s dd r show ?thesis by blast
qed

subsection \<open>What each call does to trails and cooldowns\<close>

lemma same_refl [simp]: "same_trails_cooldowns w w"
  by (simp add: same_trails_cooldowns_def)

lemma same_trans:
  "same_trails_cooldowns w w1 \<Longrightarrow> same_trails_cooldowns w1 w2 \<Longrightarrow> same_trails_cooldowns w w2"
  by (simp add: same_trails_cooldowns_def)

lemma same_modify:
  "trail (f (heap w r)) = trail (heap w r) \<Longrightarrow>
   reproduction_cooldown (f (heap w r)) = reproduction_cooldown (heap w r) \<Longrightarrow>
   same_trails_cooldowns w (modify r f w)"
  by (simp add: same_trails_cooldowns_def)

lemma same_atoms_update:
  "same_trails_cooldowns w w1 \<Longrightarrow> same_trails_cooldowns w (w1\<lparr>atoms := xs\<rparr>)"
  by (simp add: same_trails_cooldowns_def)

lemma same_modify_after:
  "same_trails_cooldowns w w1 \<Longrightarrow> trail (f (heap w1 r)) = trail (heap w1 r) \<Longrightarrow>
   reproduction_cooldown (f (heap w1 r)) = reproduction_cooldown (heap w1 r) \<Longrightarrow>
   same_trails_cooldowns w (modify r f w1)"
  by (rule same_trans[OF _ same_modify])

lemma same_eat_loop: "same_trails_cooldowns w (eat_loop self xs w)"
  by (induction xs) (simp_all add: Let_def same_atoms_update same_modify feed_eq)

lemma same_eat: "same_trails_cooldowns w (eat self w)"
  by (simp add: eat_def same_eat_loop)

lemma same_check_bounds: "same_trails_cooldowns w (modify r check_bounds w)"
  by (rule same_modify) (simp_all add: check_bounds_frame)

lemma same_reset_force: "same_trails_cooldowns w (modify r reset_force w)"
  by (rule same_modify) (simp_all add: reset_force_def)

lemma same_grow: "same_trails_cooldowns w (modify r (grow_atom g) w)"
  by (rule same_modify) (simp_all add: grow_atom_def)

lemma apply_force_frame:
  "apply_force pfx pfy a = Inr a' \<Longrightarrow>
   trail a' = trail a \<and> reproduction_cooldown a' = reproduction_cooldown a \<and> mass a' = mass a
   \<and> atom_x a' = atom_x a \<and> atom_y a' = atom_y a \<and> charge a' = charge a"
  by (auto simp: apply_force_def Let_def split: if_splits)

lemma same_apply_force_at:
  "apply_force_at r pfx pfy w = Inr w' \<Longrightarrow> same_trails_cooldowns w w'"
  by (auto simp: apply_force_at_def same_trails_cooldowns_def split: sum.splits
      dest: apply_force_frame)

lemma same_resolve_collision:
  "resolve_collision self other w = Inr w' \<Longrightarrow> same_trails_cooldowns w w'"
  unfolding resolve_collision_unfold
  by (auto split: if_splits intro!: same_modify_after same_modify)

lemma same_nudge: "same_trails_cooldowns w (nudge self r1 r2 w)"
  by (simp add: nudge_def Let_def same_modify_after same_modify)

lemma same_wander: "same_trails_cooldowns w (wander self r1 r2 w)"
  by (simp add: wander_def same_nudge)

lemma same_chase: "same_trails_cooldowns w (chase self target w)"
  by (simp add: chase_def Let_def same_modify_after same_modify)

lemma same_flee_loop:
  "flee_loop self xs w = Inr w' \<Longrightarrow> same_trails_cooldowns w w'"
proof (induction xs arbitrary: w)
  case Nil
  then show ?case by simp
next
  case (Cons a xs)
  show ?case
  proof (cases "check_collision (heap w self) (heap w a)")
    case True
    with Cons.prems obtain w1 where r: "resolve_collision self a w = Inr w1"
      and l: "flee_loop self xs w1 = Inr w'"
      by (auto split: sum.splits)
    from same_resolve_collision[OF r] Cons.IH[OF l] show ?thesis by (rule same_trans)
  next
    case False
    with Cons show ?thesis by simp
  qed
qed

lemma same_flee: "flee self r1 r2 w = Inr w' \<Longrightarrow> same_trails_cooldowns w w'"
  by (auto simp: flee_def split: sum.splits if_splits
      intro: same_flee_loop same_trans[OF same_flee_loop same_nudge])

lemma same_lifecycle: "same_trails_cooldowns w (lifecycle r w)"
  by (simp add: lifecycle_def Let_def same_atoms_update same_modify_after same_modify)

text \<open>\<^verbatim>\<open>update_position\<close>: what it leaves in each field.\<close>

lemma update_position_fields:
  "vx (update_position sp a) =
     max (- MAX_VELOCITY) (min (vx (check_bounds (damp (advance sp a)))) MAX_VELOCITY)"
  "vy (update_position sp a) =
     max (- MAX_VELOCITY) (min (vy (check_bounds (damp (advance sp a)))) MAX_VELOCITY)"
  "energy (update_position sp a) =
     (1 / 2) * mass (update_position sp a)
       * ((vx (update_position sp a))\<^sup>2 + (vy (update_position sp a))\<^sup>2)"
  "mass (update_position sp a) = mass a"
  "reproduction_cooldown (update_position sp a) = reproduction_cooldown a"
  "length (trail (update_position sp a)) =
     (if length (trail a) < 10 then Suc (length (trail a)) else length (trail a))"
  by (simp_all add: update_position_def update_trail_def update_energy_def limit_velocity_def
      check_bounds_frame damp_def advance_def Let_def TRAIL_LENGTH_def)

lemma same_decide_behavior:
  assumes "decide_behavior self r1 r2 r3 r4 w = Inr w'"
  shows "same_trails_cooldowns (modify self cooldown_tick w) w'"
proof -
  let ?w1 = "modify self cooldown_tick w"
  from assms obtain w2 where
    a: "(if health (heap ?w1 self) < 30 then flee self r1 r2 ?w1
         else Inr (nudge self r1 r2 ?w1)) = Inr w2"
    and b: "w' =
      (let w3 = (if \<not> in_battle (heap w2 self) then
                         (case find_nearest_atom self w2 of
                            None \<Rightarrow> w2
                          | Some closest_atom \<Rightarrow> chase self closest_atom w2)
                       else w2)
       in (if hunger (heap w3 self) < 50 then
                  (case find_nearest_food self w3 of
                     None \<Rightarrow> w3
                   | Some food \<Rightarrow> chase self food w3)
                else if MATING_SEASON \<and> reproduction_cooldown (heap w3 self) = 0
                        \<and> hunger (heap w3 self) > 50 \<and> health (heap w3 self) > 50 then
                  (case find_mate self (atoms w3) w3 of
                     None \<Rightarrow> w3
                   | Some mate \<Rightarrow> chase self mate w3)
                else
                  (case find_nearest_atom self w3 of
                     None \<Rightarrow> wander self r3 r4 w3
                   | Some nearest_atom \<Rightarrow>
                       if health (heap w3 nearest_atom) < health (heap w3 self)
                       then chase self nearest_atom w3
                       else wander self r3 r4 w3)))"
    unfolding decide_behavior_def Let_def by (auto split: sum.splits)
  define w3 where "w3 = (if \<not> in_battle (heap w2 self) then
                         (case find_nearest_atom self w2 of
                            None \<Rightarrow> w2
                          | Some closest_atom \<Rightarrow> chase self closest_atom w2)
                       else w2)"
  have s12: "same_trails_cooldowns ?w1 w2"
    using a by (auto split: if_splits intro: same_flee same_nudge)
  have s23: "same_trails_cooldowns w2 w3"
    unfolding w3_def by (auto split: option.splits intro: same_chase)
  have s3: "same_trails_cooldowns w3 w'"
    unfolding b Let_def w3_def[symmetric]
    by (auto split: option.splits intro: same_chase same_wander)
  from s12 s23 s3 show ?thesis by (blast intro: same_trans)
qed

lemma cooldown_tick_fields:
  "trail (cooldown_tick a) = trail a"
  "reproduction_cooldown (cooldown_tick a) =
     (if reproduction_cooldown a > 0 then reproduction_cooldown a - 1
      else reproduction_cooldown a)"
  by (simp_all add: cooldown_tick_def)

lemma decide_behavior_fields:
  assumes "decide_behavior self r1 r2 r3 r4 w = Inr w'"
  shows "trail (heap w' r) = trail (heap w r)"
    and "reproduction_cooldown (heap w' r) =
      (if r = self \<and> reproduction_cooldown (heap w r) > 0
       then reproduction_cooldown (heap w r) - 1 else reproduction_cooldown (heap w r))"
  using same_decide_behavior[OF assms]
  by (simp_all add: same_trails_cooldowns_def cooldown_tick_fields)

lemma mate_with_trail_cooldown:
  "trail (heap (mate_with self mate w) r) = (if r = fresh w then [] else trail (heap w r))"
  "reproduction_cooldown (heap (mate_with self mate w) r) =
     (if r = self \<or> r = mate then 60
      else if r = fresh w then 0 else reproduction_cooldown (heap w r))"
  by (simp_all add: mate_with_fields(3) combine_atoms_fields)

lemma reproduce_trail_cooldown:
  "trail (heap (reproduce self w) r) =
     (if reproduction_cooldown (heap w self) = 0 \<and> find_mate self (atoms w) w \<noteq> None
         \<and> r = fresh w
      then [] else trail (heap w r))"
  "reproduction_cooldown (heap (reproduce self w) r) =
     (if reproduction_cooldown (heap w self) = 0 \<and> find_mate self (atoms w) w \<noteq> None
      then (if r = self \<or> r = the (find_mate self (atoms w) w) then 60
            else if r = fresh w then 0 else reproduction_cooldown (heap w r))
      else reproduction_cooldown (heap w r))"
  by (auto simp: reproduce_def Let_def REPRODUCTION_COOLDOWN_def mate_with_trail_cooldown
      split: option.splits)

text \<open>The effect of every call on the trail and the cooldown of every object.\<close>

lemma exec_trail:
  assumes "exec c w = Inr w'"
  shows "length (trail (heap w' r)) \<le> max 10 (length (trail (heap w r)))"
proof (cases c)
  case (Reproduce x)
  with assms show ?thesis by (auto simp: reproduce_trail_cooldown)
next
  case (Eat x)
  with assms same_eat[of w x] show ?thesis by (auto simp: same_trails_cooldowns_def)
next
  case (CheckBounds x)
  with assms same_check_bounds[of w x] show ?thesis by (auto simp: same_trails_cooldowns_def)
next
  case (UpdatePosition x sp)
  with assms show ?thesis by (auto simp: update_position_fields)
next
  case (ApplyForce x pfx pfy)
  with assms same_apply_force_at[of x pfx pfy w w'] show ?thesis
    by (auto simp: same_trails_cooldowns_def)
next
  case (ResetForce x)
  with assms same_reset_force[of w x] show ?thesis by (auto simp: same_trails_cooldowns_def)
next
  case (ResolveCollision x y)
  with assms same_resolve_collision[of x y w w'] show ?thesis
    by (auto simp: same_trails_cooldowns_def)
next
  case (Flee x r1 r2)
  with assms same_flee[of x r1 r2 w w'] show ?thesis by (auto simp: same_trails_cooldowns_def)
next
  case (Chase x y)
  with assms same_chase[of w x y] show ?thesis by (auto simp: same_trails_cooldowns_def)
next
  case (Wander x r1 r2)
  with assms same_wander[of w x r1 r2] show ?thesis by (auto simp: same_trails_cooldowns_def)
next
  case (MateWith x y)
  with assms show ?thesis by (auto simp: mate_with_trail_cooldown)
next
  case (DecideBehavior x r1 r2 r3 r4)
  with assms decide_behavior_fields(1)[of x r1 r2 r3 r4 w w' r] show ?thesis by simp
next
  case (Lifecycle x)
  with assms same_lifecycle[of w x] show ?thesis by (auto simp: same_trails_cooldowns_def)
next
  case (Grow x g)
  with assms same_grow[of w x g] show ?thesis by (auto simp: same_trails_cooldowns_def)
qed

text \<open>A call leaves the cooldown of an existing object as it is, or sets it to 60 (mating),
  or, when the call is \<^verbatim>\<open>decide_behavior\<close> on that object and the cooldown is positive,
  lowers it by 1. A slot that mating allocates starts at 0.\<close>

lemma exec_cooldown:
  assumes "exec c w = Inr w'"
  shows "reproduction_cooldown (heap w' r) = reproduction_cooldown (heap w r)
    \<or> reproduction_cooldown (heap w' r) = 60
    \<or> (r = fresh w \<and> reproduction_cooldown (heap w' r) = 0)
    \<or> ((\<exists>r1 r2 r3 r4. c = DecideBehavior r r1 r2 r3 r4)
        \<and> 0 < reproduction_cooldown (heap w r)
        \<and> reproduction_cooldown (heap w' r) = reproduction_cooldown (heap w r) - 1)"
proof (cases c)
  case (Reproduce x)
  with assms have w': "w' = reproduce x w" by simp
  have "reproduction_cooldown (heap (reproduce x w) r) = reproduction_cooldown (heap w r)
    \<or> reproduction_cooldown (heap (reproduce x w) r) = 60
    \<or> (r = fresh w \<and> reproduction_cooldown (heap (reproduce x w) r) = 0)"
    unfolding reproduce_trail_cooldown(2) by simp
  then show ?thesis unfolding w' by blast
next
  case (Eat x)
  with assms same_eat[of w x] show ?thesis by (auto simp: same_trails_cooldowns_def)
next
  case (CheckBounds x)
  with assms same_check_bounds[of w x] show ?thesis by (auto simp: same_trails_cooldowns_def)
next
  case (UpdatePosition x sp)
  with assms have "reproduction_cooldown (heap w' r) = reproduction_cooldown (heap w r)"
    by (cases "r = x") (auto simp: update_position_fields)
  then show ?thesis by blast
next
  case (ApplyForce x pfx pfy)
  with assms same_apply_force_at[of x pfx pfy w w'] show ?thesis
    by (auto simp: same_trails_cooldowns_def)
next
  case (ResetForce x)
  with assms same_reset_force[of w x] show ?thesis by (auto simp: same_trails_cooldowns_def)
next
  case (ResolveCollision x y)
  with assms same_resolve_collision[of x y w w'] show ?thesis
    by (auto simp: same_trails_cooldowns_def)
next
  case (Flee x r1 r2)
  with assms same_flee[of x r1 r2 w w'] show ?thesis by (auto simp: same_trails_cooldowns_def)
next
  case (Chase x y)
  with assms same_chase[of w x y] show ?thesis by (auto simp: same_trails_cooldowns_def)
next
  case (Wander x r1 r2)
  with assms same_wander[of w x r1 r2] show ?thesis by (auto simp: same_trails_cooldowns_def)
next
  case (MateWith x y)
  with assms have w': "w' = mate_with x y w" by simp
  have "reproduction_cooldown (heap (mate_with x y w) r) = reproduction_cooldown (heap w r)
    \<or> reproduction_cooldown (heap (mate_with x y w) r) = 60
    \<or> (r = fresh w \<and> reproduction_cooldown (heap (mate_with x y w) r) = 0)"
    unfolding mate_with_trail_cooldown(2) by simp
  then show ?thesis unfolding w' by blast
next
  case (DecideBehavior x r1 r2 r3 r4)
  with assms decide_behavior_fields(2)[of x r1 r2 r3 r4 w w' r] show ?thesis
    by (cases "r = x") auto
next
  case (Lifecycle x)
  with assms same_lifecycle[of w x] show ?thesis by (auto simp: same_trails_cooldowns_def)
next
  case (Grow x g)
  with assms same_grow[of w x g] show ?thesis by (auto simp: same_trails_cooldowns_def)
qed

lemma cooldown_range_iff: "c \<in> cooldown_range \<longleftrightarrow> (\<exists>n::nat. n \<le> 60 \<and> c = real n)"
  by (auto simp: cooldown_range_def)

lemma cooldown_range_facts:
  "0 \<in> cooldown_range" "60 \<in> cooldown_range"
  "c \<in> cooldown_range \<Longrightarrow> 0 \<le> c \<and> c \<le> 60"
  "c \<in> cooldown_range \<Longrightarrow> 0 < c \<Longrightarrow> c - 1 \<in> cooldown_range"
proof -
  show "0 \<in> cooldown_range" unfolding cooldown_range_iff by (rule exI[of _ 0]) simp
  show "60 \<in> cooldown_range" unfolding cooldown_range_iff by (rule exI[of _ 60]) simp
  show "c \<in> cooldown_range \<Longrightarrow> 0 \<le> c \<and> c \<le> 60" unfolding cooldown_range_iff by auto
  show "c \<in> cooldown_range \<Longrightarrow> 0 < c \<Longrightarrow> c - 1 \<in> cooldown_range"
  proof -
    assume "c \<in> cooldown_range" "0 < c"
    then obtain n :: nat where n: "n \<le> 60" "c = real n" "0 < n"
      unfolding cooldown_range_iff by auto
    then have "n - 1 \<le> 60 \<and> c - 1 = real (n - 1)" by (simp add: of_nat_diff)
    then show ?thesis unfolding cooldown_range_iff by blast
  qed
qed

lemma constructed_fields:
  "constructed a \<Longrightarrow> trail a = [] \<and> reproduction_cooldown a = 0"
proof -
  assume "constructed a"
  then have e: "a = Atom_init (atom_x a) (atom_y a) (vx a) (vy a) (mass a) (charge a)
            (atom_size a) (color a) (species a)" by (simp add: constructed_def)
  have "trail (Atom_init (atom_x a) (atom_y a) (vx a) (vy a) (mass a) (charge a)
            (atom_size a) (color a) (species a)) = []"
    "reproduction_cooldown (Atom_init (atom_x a) (atom_y a) (vx a) (vy a) (mass a) (charge a)
            (atom_size a) (color a) (species a)) = 0"
    by (simp_all add: Atom_init_def)
  with e show ?thesis by simp
qed

lemma run_invariants:
  assumes "run cs w0 = Inr w"
    and "\<forall>r. length (trail (heap w0 r)) \<le> 10"
    and "\<forall>r. reproduction_cooldown (heap w0 r) \<in> cooldown_range"
  shows "(\<forall>r. length (trail (heap w r)) \<le> 10)
       \<and> (\<forall>r. reproduction_cooldown (heap w r) \<in> cooldown_range)"
  using assms
proof (induction cs arbitrary: w0)
  case Nil
  then show ?case by simp
next
  case (Cons c cs)
  from Cons.prems(1) obtain w1 where e: "exec c w0 = Inr w1" and r: "run cs w1 = Inr w"
    by (auto split: sum.splits)
  have t: "\<forall>r. length (trail (heap w1 r)) \<le> 10"
  proof
    fix r
    from Cons.prems(2) have "length (trail (heap w0 r)) \<le> 10" by simp
    with exec_trail[OF e, of r] show "length (trail (heap w1 r)) \<le> 10" by simp
  qed
  have k: "\<forall>r. reproduction_cooldown (heap w1 r) \<in> cooldown_range"
  proof
    fix r
    from Cons.prems(3) have "reproduction_cooldown (heap w0 r) \<in> cooldown_range" by simp
    with exec_cooldown[OF e, of r] show "reproduction_cooldown (heap w1 r) \<in> cooldown_range"
      by (auto simp: cooldown_range_facts)
  qed
  from Cons.IH[OF r t k] show ?case .
qed

lemma constructed_run_invariants:
  assumes "constructed_world w0" and "run cs w0 = Inr w"
  shows "length (trail (heap w r)) \<le> 10"
    and "reproduction_cooldown (heap w r) \<in> cooldown_range"
proof -
  have "\<forall>r. length (trail (heap w0 r)) \<le> 10"
    "\<forall>r. reproduction_cooldown (heap w0 r) \<in> cooldown_range"
    using assms(1) constructed_fields
    by (auto simp: constructed_world_def cooldown_range_facts)
  from run_invariants[OF assms(2) this]
  show "length (trail (heap w r)) \<le> 10"
    and "reproduction_cooldown (heap w r) \<in> cooldown_range" by simp_all
qed

subsection \<open>Position update and trail\<close>

lemma run_update_positions:
  "\<exists>w'. run (replicate n (UpdatePosition r sp)) w = Inr w'
     \<and> length (trail (heap w' r)) =
         (if length (trail (heap w r)) < 10 then min 10 (length (trail (heap w r)) + n)
          else length (trail (heap w r)))"
proof (induction n arbitrary: w)
  case 0
  then show ?case by simp
next
  case (Suc n)
  let ?w1 = "modify r (update_position sp) w"
  from Suc[of ?w1] obtain w' where
    r: "run (replicate n (UpdatePosition r sp)) ?w1 = Inr w'"
    and l: "length (trail (heap w' r)) =
         (if length (trail (heap ?w1 r)) < 10 then min 10 (length (trail (heap ?w1 r)) + n)
          else length (trail (heap ?w1 r)))"
    by blast
  have "run (replicate (Suc n) (UpdatePosition r sp)) w = Inr w'"
    using r by simp
  moreover have "length (trail (heap w' r)) =
         (if length (trail (heap w r)) < 10 then min 10 (length (trail (heap w r)) + Suc n)
          else length (trail (heap w r)))"
    unfolding l by (simp add: update_position_fields)
  ultimately show ?case by blast
qed

text \<open>
  Claim C10. After \<^verbatim>\<open>update_position\<close> each velocity component lies within
  \<^verbatim>\<open>MAX_VELOCITY\<close> = 5 and the energy is \<open>0.5 * mass * (vx\<^sup>2 + vy\<^sup>2)\<close> of the velocity the
  atom is left with. In every world reached from constructed atoms (empty trails) by any
  sequence of calls that write atoms, every trail holds at most 10 positions.
\<close>

theorem update_position_bounds_and_trail:
  "\<bar>vx (update_position sp a)\<bar> \<le> MAX_VELOCITY
   \<and> \<bar>vy (update_position sp a)\<bar> \<le> MAX_VELOCITY
   \<and> MAX_VELOCITY = 5
   \<and> energy (update_position sp a) =
        (1 / 2) * mass (update_position sp a)
          * ((vx (update_position sp a))\<^sup>2 + (vy (update_position sp a))\<^sup>2)
   \<and> (length (trail a) \<le> 10 \<longrightarrow> length (trail (update_position sp a)) \<le> 10)
   \<and> (constructed_world w0 \<and> run cs w0 = Inr w \<longrightarrow> length (trail (heap w r)) \<le> 10)"
proof (intro conjI impI)
  show "\<bar>vx (update_position sp a)\<bar> \<le> MAX_VELOCITY"
    unfolding update_position_fields(1) by (simp add: MAX_VELOCITY_def)
  show "\<bar>vy (update_position sp a)\<bar> \<le> MAX_VELOCITY"
    unfolding update_position_fields(2) by (simp add: MAX_VELOCITY_def)
  show "MAX_VELOCITY = 5" by (simp add: MAX_VELOCITY_def)
  show "energy (update_position sp a) =
        (1 / 2) * mass (update_position sp a)
          * ((vx (update_position sp a))\<^sup>2 + (vy (update_position sp a))\<^sup>2)"
    by (rule update_position_fields(3))
  show "length (trail a) \<le> 10 \<Longrightarrow> length (trail (update_position sp a)) \<le> 10"
    by (simp add: update_position_fields(6))
  show "constructed_world w0 \<and> run cs w0 = Inr w \<Longrightarrow> length (trail (heap w r)) \<le> 10"
    using constructed_run_invariants(1) by blast
qed

lemma constructed_demo:
  "constructed_world demo_world" "constructed_world demo_world_no_food"
  by (simp_all add: constructed_world_def constructed_def demo_defs)

theorem update_position_bounds_and_trail_witness:
  "constructed_world demo_world
   \<and> (\<exists>w. run (replicate 12 (UpdatePosition 0 1)) demo_world = Inr w
          \<and> length (trail (heap w 0)) = 10)
   \<and> length (trail (update_position 1 demo_red)) = 1"
proof -
  from run_update_positions[of 12 0 1 demo_world] obtain w where
    r: "run (replicate 12 (UpdatePosition 0 1)) demo_world = Inr w"
    and l: "length (trail (heap w 0)) =
         (if length (trail (heap demo_world 0)) < 10
          then min 10 (length (trail (heap demo_world 0)) + 12)
          else length (trail (heap demo_world 0)))"
    by blast
  have e: "trail (heap demo_world 0) = []" "trail demo_red = []"
    by (simp_all add: demo_defs)
  from l have l10: "10 \<le> length (trail (heap w 0))" by (simp add: e)
  from constructed_demo(1) r
    update_position_bounds_and_trail[of 1 demo_red demo_world "replicate 12 (UpdatePosition 0 1)" w 0]
  have "length (trail (heap w 0)) \<le> 10" by blast
  with l10 have "length (trail (heap w 0)) = 10" by simp
  with r have ex: "\<exists>w. run (replicate 12 (UpdatePosition 0 1)) demo_world = Inr w
          \<and> length (trail (heap w 0)) = 10" by blast
  have "length (trail (update_position 1 demo_red)) = 1"
    by (simp add: update_position_fields(6) e)
  with constructed_demo(1) ex show ?thesis by blast
qed

subsection \<open>Reproduction cooldown\<close>

lemma decide_behavior_healthy:
  "\<not> health (heap w self) < 30 \<Longrightarrow> \<exists>w'. decide_behavior self r1 r2 r3 r4 w = Inr w'"
proof -
  assume h: "\<not> health (heap w self) < 30"
  have "health (cooldown_tick (heap w self)) = health (heap w self)"
    by (simp add: cooldown_tick_def)
  with h have "\<not> health (heap (modify self cooldown_tick w) self) < 30" by simp
  then show ?thesis unfolding decide_behavior_def Let_def by simp
qed

lemma reproduce_success:
  assumes "reproduction_cooldown (heap w self) = 0"
    and "find_mate self (atoms w) w = Some mate"
  shows "reproduction_cooldown (heap (reproduce self w) self) = 60"
    and "reproduction_cooldown (heap (reproduce self w) mate) = 60"
    and "atoms (reproduce self w) = atoms w @ [fresh w]"
  using assms
  by (simp_all add: reproduce_trail_cooldown(2) reproduce_def Let_def mate_with_fields(1)
      REPRODUCTION_COOLDOWN_def)

text \<open>
  Claim C8. In every world reached from constructed atoms by any sequence of calls that
  write atoms, every cooldown is a whole number between 0 and 60, so it is never
  negative. A call lowers the cooldown of an existing object only if it is
  \<^verbatim>\<open>decide_behavior\<close> on that object, the cooldown is positive, and then it lowers it by
  exactly 1; \<^verbatim>\<open>decide_behavior\<close> leaves a cooldown of 0 at 0. A successful
  \<^verbatim>\<open>reproduce\<close> (cooldown 0 and a mate found) appends the offspring and leaves both
  participants at 60.
\<close>

theorem reproduction_cooldown_discipline:
  assumes "constructed_world w0" and "run cs w0 = Inr w"
  shows "0 \<le> reproduction_cooldown (heap w r)
    \<and> reproduction_cooldown (heap w r) \<in> cooldown_range
    \<and> (exec c w = Inr w' \<and> r < fresh w
          \<and> reproduction_cooldown (heap w' r) < reproduction_cooldown (heap w r) \<longrightarrow>
        (\<exists>r1 r2 r3 r4. c = DecideBehavior r r1 r2 r3 r4)
        \<and> 0 < reproduction_cooldown (heap w r)
        \<and> reproduction_cooldown (heap w' r) = reproduction_cooldown (heap w r) - 1)
    \<and> (decide_behavior r r1 r2 r3 r4 w = Inr w'' \<longrightarrow>
        reproduction_cooldown (heap w'' r) =
          (if 0 < reproduction_cooldown (heap w r) then reproduction_cooldown (heap w r) - 1
           else reproduction_cooldown (heap w r)))
    \<and> (reproduction_cooldown (heap w self) = 0 \<and> find_mate self (atoms w) w = Some mate \<longrightarrow>
        reproduction_cooldown (heap (reproduce self w) self) = 60
        \<and> reproduction_cooldown (heap (reproduce self w) mate) = 60
        \<and> atoms (reproduce self w) = atoms w @ [fresh w])"
proof (intro conjI impI)
  have rng: "reproduction_cooldown (heap w r) \<in> cooldown_range"
    using constructed_run_invariants(2)[OF assms] .
  then show "reproduction_cooldown (heap w r) \<in> cooldown_range" .
  from rng show "0 \<le> reproduction_cooldown (heap w r)"
    by (simp add: cooldown_range_facts(3))
  {
    assume a: "exec c w = Inr w' \<and> r < fresh w
          \<and> reproduction_cooldown (heap w' r) < reproduction_cooldown (heap w r)"
    from rng have le: "reproduction_cooldown (heap w r) \<le> 60"
      by (simp add: cooldown_range_facts(3))
    from a exec_cooldown[of c w w' r] le
    have d: "(\<exists>r1 r2 r3 r4. c = DecideBehavior r r1 r2 r3 r4)
        \<and> 0 < reproduction_cooldown (heap w r)
        \<and> reproduction_cooldown (heap w' r) = reproduction_cooldown (heap w r) - 1"
      by auto
    from d show "\<exists>r1 r2 r3 r4. c = DecideBehavior r r1 r2 r3 r4" by blast
    from d show "0 < reproduction_cooldown (heap w r)" by blast
    from d show "reproduction_cooldown (heap w' r) = reproduction_cooldown (heap w r) - 1"
      by blast
  }
  {
    assume "decide_behavior r r1 r2 r3 r4 w = Inr w''"
    from decide_behavior_fields(2)[OF this, of r]
    show "reproduction_cooldown (heap w'' r) =
          (if 0 < reproduction_cooldown (heap w r) then reproduction_cooldown (heap w r) - 1
           else reproduction_cooldown (heap w r))" by simp
  }
  {
    assume m: "reproduction_cooldown (heap w self) = 0 \<and> find_mate self (atoms w) w = Some mate"
    then have m1: "reproduction_cooldown (heap w self) = 0"
      and m2: "find_mate self (atoms w) w = Some mate" by simp_all
    show "reproduction_cooldown (heap (reproduce self w) self) = 60"
      by (rule reproduce_success(1)[OF m1 m2])
    show "reproduction_cooldown (heap (reproduce self w) mate) = 60"
      by (rule reproduce_success(2)[OF m1 m2])
    show "atoms (reproduce self w) = atoms w @ [fresh w]"
      by (rule reproduce_success(3)[OF m1 m2])
  }
qed

theorem reproduction_cooldown_discipline_witness:
  "constructed_world demo_world_no_food
   \<and> run [Reproduce 0] demo_world_no_food = Inr (reproduce 0 demo_world_no_food)
   \<and> reproduction_cooldown (heap demo_world_no_food 0) = 0
   \<and> find_mate 0 (atoms demo_world_no_food) demo_world_no_food = Some 1
   \<and> reproduction_cooldown (heap (reproduce 0 demo_world_no_food) 0) = 60
   \<and> reproduction_cooldown (heap (reproduce 0 demo_world_no_food) 1) = 60
   \<and> atoms (reproduce 0 demo_world_no_food) = [0, 1, 2]
   \<and> (\<exists>w'. exec (DecideBehavior 0 0 0 0 0) (reproduce 0 demo_world_no_food) = Inr w'
          \<and> reproduction_cooldown (heap w' 0) = 59)"
proof -
  let ?u = demo_world_no_food
  let ?v = "reproduce 0 demo_world_no_food"
  have r0: "run [] ?u = Inr ?u" by simp
  have r1: "run [Reproduce 0] ?u = Inr ?v" by simp
  have c0: "reproduction_cooldown (heap ?u 0) = 0" by (simp add: demo_defs)
  have fm: "find_mate 0 (atoms ?u) ?u = Some 1" by (simp add: demo_defs)
  from c0 fm reproduction_cooldown_discipline[OF constructed_demo(2) r0, of _ _ _ _ _ _ _ _ 0 1]
  have s: "reproduction_cooldown (heap ?v 0) = 60" "reproduction_cooldown (heap ?v 1) = 60"
    "atoms ?v = atoms ?u @ [fresh ?u]" by blast+
  have at: "atoms ?u @ [fresh ?u] = [0, 1, 2]" by (simp add: demo_defs)
  have "health (heap ?v 0) = 100"
    using c0 fm by (simp add: reproduce_def Let_def mate_with_fields(3) demo_defs)
  then have "\<not> health (heap ?v 0) < 30" by simp
  from decide_behavior_healthy[OF this, of 0 0 0 0] obtain w' where
    d: "decide_behavior 0 0 0 0 0 ?v = Inr w'" by blast
  from d reproduction_cooldown_discipline[OF constructed_demo(2) r1, of 0 _ _ 0 0 0 0 w']
  have "reproduction_cooldown (heap w' 0) =
          (if 0 < reproduction_cooldown (heap ?v 0) then reproduction_cooldown (heap ?v 0) - 1
           else reproduction_cooldown (heap ?v 0))" by blast
  then have "reproduction_cooldown (heap w' 0) = 59" by (simp add: s(1))
  with d have ex: "\<exists>w'. exec (DecideBehavior 0 0 0 0 0) ?v = Inr w'
          \<and> reproduction_cooldown (heap w' 0) = 59" by simp
  from constructed_demo(2) r1 c0 fm s(1,2) s(3)[unfolded at] ex show ?thesis by blast
qed

subsection \<open>The pairwise force pass\<close>

lemma pushed_fields:
  "fx (pushed px py s) = fx s + px" "fy (pushed px py s) = fy s + py"
  "vx (pushed px py s) = vx s + px / mass s" "vy (pushed px py s) = vy s + py / mass s"
  "atom_x (pushed px py s) = atom_x s" "atom_y (pushed px py s) = atom_y s"
  "mass (pushed px py s) = mass s" "charge (pushed px py s) = charge s"
  by (simp_all add: pushed_def)

lemma pushed_zero [simp]: "pushed 0 0 s = s"
  by (simp add: pushed_def)

lemma apply_force_pushed:
  "apply_force px py s = (if mass s = 0 then Inl ZeroDivisionError else Inr (pushed px py s))"
  by (simp add: apply_force_def pushed_def Let_def)

lemma apply_force_at_pushed:
  "apply_force_at r px py w =
     (if mass (heap w r) = 0 then Inl ZeroDivisionError else Inr (modify r (pushed px py) w))"
  by (simp add: apply_force_at_def apply_force_pushed modify_def)

lemma spec_pair_force_skip:
  "hypot (atom_x q - atom_x p) (atom_y q - atom_y p) = 0
   \<or> hypot (atom_x q - atom_x p) (atom_y q - atom_y p) > FORCE_THRESHOLD
   \<Longrightarrow> spec_pair_force p q = (0, 0)"
  by (auto simp: spec_pair_force_def Let_def)

lemma hypot_swap: "hypot (a - b) (c - d) = hypot (b - a) (d - c)"
  by (simp add: hypot_def power2_commute)

lemma spec_pair_force_opposite:
  "spec_pair_force q p = (- fst (spec_pair_force p q), - snd (spec_pair_force p q))"
proof -
  let ?d = "hypot (atom_x q - atom_x p) (atom_y q - atom_y p)"
  have d: "hypot (atom_x p - atom_x q) (atom_y p - atom_y q) = ?d" by (rule hypot_swap)
  have n: "(atom_x p - atom_x q) / ?d = - ((atom_x q - atom_x p) / ?d)"
    "(atom_y p - atom_y q) / ?d = - ((atom_y q - atom_y p) / ?d)"
    by (simp_all only: minus_divide_left minus_diff_eq)
  show ?thesis
    unfolding spec_pair_force_def Let_def d n
    by (simp add: mult_ac disj_commute)
qed

lemma spec_pair_force_self [simp]: "spec_pair_force p p = (0, 0)"
  by (simp add: spec_pair_force_def hypot_def)

text \<open>The body of the loop, for one pair: it skips the pair, or raises (a pair in range
  with a mass of zero), or pushes \<open>a\<close> by the specified force and \<open>b\<close> by its opposite.\<close>

lemma pair_force_unfold:
  "pair_force a b w =
     (if center_distance w a b = 0 \<or> center_distance w a b > FORCE_THRESHOLD then Inr w
      else if mass (heap w a) = 0 \<or> mass (heap w b) = 0 then Inl ZeroDivisionError
      else Inr (modify b (pushed (- fst (spec_pair_force (heap w a) (heap w b)))
                                 (- snd (spec_pair_force (heap w a) (heap w b))))
               (modify a (pushed (fst (spec_pair_force (heap w a) (heap w b)))
                                 (snd (spec_pair_force (heap w a) (heap w b)))) w)))"
proof -
  define d where
    "d = hypot (atom_x (heap w b) - atom_x (heap w a)) (atom_y (heap w b) - atom_y (heap w a))"
  define Fg where "Fg = GRAVITY * mass (heap w a) * mass (heap w b) / d\<^sup>2"
  define Fe where "Fe = (if charge (heap w a) = 0 \<or> charge (heap w b) = 0 then 0
                     else COULOMB * charge (heap w a) * charge (heap w b) / d\<^sup>2)"
  define Fx where "Fx = (Fg - Fe) * (atom_x (heap w b) - atom_x (heap w a)) / d * FORCE_SCALE"
  define Fy where "Fy = (Fg - Fe) * (atom_y (heap w b) - atom_y (heap w a)) / d * FORCE_SCALE"
  have P: "pair_force a b w =
     (if d = 0 \<or> d > FORCE_THRESHOLD then Inr w
      else case apply_force_at a Fx Fy w of
             Inl e \<Rightarrow> Inl e
           | Inr w1 \<Rightarrow> apply_force_at b (- Fx) (- Fy) w1)"
    unfolding pair_force_def Let_def d_def Fg_def Fe_def Fx_def Fy_def ..
  have F: "spec_pair_force (heap w a) (heap w b) =
     (if d = 0 \<or> d > FORCE_THRESHOLD then (0, 0) else (Fx, Fy))"
    unfolding spec_pair_force_def Let_def d_def[symmetric] Fg_def[symmetric] Fe_def[symmetric]
      Fx_def Fy_def
    by (simp add: mult_ac)
  have cd: "center_distance w a b = d" by (simp add: center_distance_def d_def)
  show ?thesis
  proof (cases "d = 0 \<or> d > FORCE_THRESHOLD")
    case True
    then show ?thesis unfolding P cd by simp
  next
    case False
    then have "d \<noteq> 0" by simp
    then have ne: "a \<noteq> b" by (auto simp: d_def hypot_def)
    from False have Fv: "spec_pair_force (heap w a) (heap w b) = (Fx, Fy)"
      unfolding F by simp
    show ?thesis
      unfolding P cd Fv fst_conv snd_conv using False ne
      by (simp add: apply_force_at_pushed pushed_fields)
  qed
qed

lemma same_geometry_refl [simp]: "same_geometry w w"
  by (simp add: same_geometry_def)

lemma same_geometry_trans:
  "same_geometry w w1 \<Longrightarrow> same_geometry w1 w2 \<Longrightarrow> same_geometry w w2"
  by (simp add: same_geometry_def)

lemma spec_pair_force_cong:
  "atom_x p = atom_x p' \<Longrightarrow> atom_y p = atom_y p' \<Longrightarrow> mass p = mass p' \<Longrightarrow>
   charge p = charge p' \<Longrightarrow> atom_x q = atom_x q' \<Longrightarrow> atom_y q = atom_y q' \<Longrightarrow>
   mass q = mass q' \<Longrightarrow> charge q = charge q' \<Longrightarrow>
   spec_pair_force p q = spec_pair_force p' q'"
  by (simp add: spec_pair_force_def Let_def)

lemma same_geometry_force:
  "same_geometry w0 w \<Longrightarrow>
   spec_pair_force (heap w r) (heap w q) = spec_pair_force (heap w0 r) (heap w0 q)"
  by (rule spec_pair_force_cong) (simp_all add: same_geometry_def)

lemma pair_force_effect:
  assumes "pair_force a b w = Inr w'"
  shows "same_geometry w w'"
    and "atoms w' = atoms w"
    and "fx (heap w' r) = fx (heap w r)
          + (if r = a then fst (spec_pair_force (heap w a) (heap w b)) else 0)
          + (if r = b then fst (spec_pair_force (heap w b) (heap w a)) else 0)"
    and "fy (heap w' r) = fy (heap w r)
          + (if r = a then snd (spec_pair_force (heap w a) (heap w b)) else 0)
          + (if r = b then snd (spec_pair_force (heap w b) (heap w a)) else 0)"
    and "vx (heap w' r) = vx (heap w r)
          + (if r = a then fst (spec_pair_force (heap w a) (heap w b)) / mass (heap w a) else 0)
          + (if r = b then fst (spec_pair_force (heap w b) (heap w a)) / mass (heap w b) else 0)"
    and "vy (heap w' r) = vy (heap w r)
          + (if r = a then snd (spec_pair_force (heap w a) (heap w b)) / mass (heap w a) else 0)
          + (if r = b then snd (spec_pair_force (heap w b) (heap w a)) / mass (heap w b) else 0)"
proof -
  let ?F = "spec_pair_force (heap w a) (heap w b)"
  have opp: "spec_pair_force (heap w b) (heap w a) = (- fst ?F, - snd ?F)"
    by (rule spec_pair_force_opposite)
  show "same_geometry w w'" "atoms w' = atoms w"
    using assms unfolding pair_force_unfold
    by (auto simp: same_geometry_def pushed_fields split: if_splits)
  show "fx (heap w' r) = fx (heap w r)
          + (if r = a then fst ?F else 0)
          + (if r = b then fst (spec_pair_force (heap w b) (heap w a)) else 0)"
    "fy (heap w' r) = fy (heap w r)
          + (if r = a then snd ?F else 0)
          + (if r = b then snd (spec_pair_force (heap w b) (heap w a)) else 0)"
    "vx (heap w' r) = vx (heap w r)
          + (if r = a then fst ?F / mass (heap w a) else 0)
          + (if r = b then fst (spec_pair_force (heap w b) (heap w a)) / mass (heap w b) else 0)"
    "vy (heap w' r) = vy (heap w r)
          + (if r = a then snd ?F / mass (heap w a) else 0)
          + (if r = b then snd (spec_pair_force (heap w b) (heap w a)) / mass (heap w b) else 0)"
    using assms unfolding pair_force_unfold opp fst_conv snd_conv
    by (auto simp: pushed_fields center_distance_def spec_pair_force_skip split: if_splits)
qed

lemma sum_list_single:
  "distinct xs \<Longrightarrow>
   sum_list (map (\<lambda>b. if r = b then g b else (0::real)) xs) = (if r \<in> set xs then g r else 0)"
  by (induction xs) auto

lemma inner_geometry:
  "pair_force_inner a bs w = Inr w' \<Longrightarrow> same_geometry w w' \<and> atoms w' = atoms w"
proof (induction bs arbitrary: w)
  case Nil
  then show ?case by simp
next
  case (Cons b bs)
  from Cons.prems obtain w1 where p: "pair_force a b w = Inr w1"
    and r: "pair_force_inner a bs w1 = Inr w'" by (auto split: sum.splits)
  from pair_force_effect(1,2)[OF p] Cons.IH[OF r] show ?case
    by (auto intro: same_geometry_trans)
qed

lemma outer_geometry:
  "pair_force_outer xs w = Inr w' \<Longrightarrow> same_geometry w w' \<and> atoms w' = atoms w"
proof (induction xs arbitrary: w)
  case Nil
  then show ?case by simp
next
  case (Cons a xs)
  from Cons.prems obtain w1 where p: "pair_force_inner a xs w = Inr w1"
    and r: "pair_force_outer xs w1 = Inr w'" by (auto split: sum.splits)
  from inner_geometry[OF p] Cons.IH[OF r] show ?case
    by (auto intro: same_geometry_trans)
qed

text \<open>A quantity \<open>phi\<close> of an atom to which each pair step adds \<open>k a b\<close> at \<open>a\<close> and \<open>k b a\<close>
  at \<open>b\<close> has, after the inner loop for \<open>a\<close>, received every pair of \<open>a\<close> with the rest of
  the list; after the outer loop over a list without repetitions, every atom of the list
  has received its pairs with all the others.\<close>

lemma inner_effect:
  fixes phi :: "atom \<Rightarrow> real" and k :: "ref \<Rightarrow> ref \<Rightarrow> real"
  assumes step: "\<And>a b w w' r. same_geometry w0 w \<Longrightarrow> pair_force a b w = Inr w' \<Longrightarrow>
      phi (heap w' r) = phi (heap w r) + (if r = a then k a b else 0)
                          + (if r = b then k b a else 0)"
    and g: "same_geometry w0 w"
    and run: "pair_force_inner a bs w = Inr w'"
  shows "phi (heap w' r) = phi (heap w r) + (if r = a then sum_list (map (k a) bs) else 0)
           + sum_list (map (\<lambda>b. if r = b then k b a else 0) bs)"
  using g run
proof (induction bs arbitrary: w)
  case Nil
  then show ?case by simp
next
  case (Cons b bs)
  from Cons.prems(2) obtain w1 where p: "pair_force a b w = Inr w1"
    and r: "pair_force_inner a bs w1 = Inr w'" by (auto split: sum.splits)
  have g1: "same_geometry w0 w1"
    using Cons.prems(1) pair_force_effect(1)[OF p] by (rule same_geometry_trans)
  from step[OF Cons.prems(1) p, of r] Cons.IH[OF g1 r] show ?case by simp
qed

lemma outer_effect:
  fixes phi :: "atom \<Rightarrow> real" and k :: "ref \<Rightarrow> ref \<Rightarrow> real"
  assumes step: "\<And>a b w w' r. same_geometry w0 w \<Longrightarrow> pair_force a b w = Inr w' \<Longrightarrow>
      phi (heap w' r) = phi (heap w r) + (if r = a then k a b else 0)
                          + (if r = b then k b a else 0)"
    and kself: "\<And>a. k a a = 0"
    and g: "same_geometry w0 w"
    and d: "distinct xs"
    and run: "pair_force_outer xs w = Inr w'"
  shows "phi (heap w' r) = phi (heap w r) + (if r \<in> set xs then sum_list (map (k r) xs) else 0)"
  using g d run
proof (induction xs arbitrary: w)
  case Nil
  then show ?case by simp
next
  case (Cons a xs)
  from Cons.prems(3) obtain w1 where p: "pair_force_inner a xs w = Inr w1"
    and r: "pair_force_outer xs w1 = Inr w'" by (auto split: sum.splits)
  have g1: "same_geometry w0 w1"
    using Cons.prems(1) inner_geometry[OF p] by (blast intro: same_geometry_trans)
  from Cons.prems(2) have dx: "distinct xs" and na: "a \<notin> set xs" by simp_all
  have i: "phi (heap w1 r) = phi (heap w r) + (if r = a then sum_list (map (k a) xs) else 0)
           + (if r \<in> set xs then k r a else 0)"
    using inner_effect[of w0 phi k w a xs w1 r, OF step Cons.prems(1) p]
    by (simp add: sum_list_single[OF dx])
  have o: "phi (heap w' r) = phi (heap w1 r) + (if r \<in> set xs then sum_list (map (k r) xs) else 0)"
    by (rule Cons.IH[OF g1 dx r])
  show ?case unfolding o i using na by (auto simp: kself)
qed

lemma inner_succeeds:
  "same_geometry w0 w \<Longrightarrow> mass (heap w0 a) \<noteq> 0 \<Longrightarrow> \<forall>b\<in>set bs. mass (heap w0 b) \<noteq> 0 \<Longrightarrow>
   \<exists>w'. pair_force_inner a bs w = Inr w'"
proof (induction bs arbitrary: w)
  case Nil
  then show ?case by simp
next
  case (Cons b bs)
  from Cons.prems have m: "mass (heap w a) \<noteq> 0" "mass (heap w b) \<noteq> 0"
    by (simp_all add: same_geometry_def)
  then obtain w1 where p: "pair_force a b w = Inr w1"
    unfolding pair_force_unfold by (cases "center_distance w a b = 0
      \<or> center_distance w a b > FORCE_THRESHOLD") auto
  have g1: "same_geometry w0 w1"
    using Cons.prems(1) pair_force_effect(1)[OF p] by (rule same_geometry_trans)
  from Cons.IH[OF g1 Cons.prems(2)] Cons.prems(3) obtain w' where
    "pair_force_inner a bs w1 = Inr w'" by auto
  with p show ?case by simp
qed

lemma outer_succeeds:
  "same_geometry w0 w \<Longrightarrow> \<forall>b\<in>set xs. mass (heap w0 b) \<noteq> 0 \<Longrightarrow>
   \<exists>w'. pair_force_outer xs w = Inr w'"
proof (induction xs arbitrary: w)
  case Nil
  then show ?case by simp
next
  case (Cons a xs)
  from inner_succeeds[OF Cons.prems(1), of a xs] Cons.prems(2) obtain w1 where
    p: "pair_force_inner a xs w = Inr w1" by auto
  have g1: "same_geometry w0 w1"
    using Cons.prems(1) inner_geometry[OF p] by (blast intro: same_geometry_trans)
  from Cons.IH[OF g1] Cons.prems(2) obtain w' where "pair_force_outer xs w1 = Inr w'" by auto
  with p show ?case by simp
qed

lemma reset_fold:
  "atoms (fold (\<lambda>atom. modify atom reset_force) xs w) = atoms w
   \<and> heap (fold (\<lambda>atom. modify atom reset_force) xs w) r =
       (if r \<in> set xs then reset_force (heap w r) else heap w r)"
proof (induction xs arbitrary: w)
  case Nil
  then show ?case by simp
next
  case (Cons a xs)
  have idem: "reset_force (reset_force (heap w a)) = reset_force (heap w a)"
    by (simp add: reset_force_def)
  show ?case using Cons[of "modify a reset_force w"] by (simp add: idem)
qed

lemma reset_forces_fields:
  "atoms (reset_forces w) = atoms w"
  "same_geometry w (reset_forces w)"
  "r \<in> set (atoms w) \<Longrightarrow> fx (heap (reset_forces w) r) = 0"
  "r \<in> set (atoms w) \<Longrightarrow> fy (heap (reset_forces w) r) = 0"
  "vx (heap (reset_forces w) r) = vx (heap w r)"
  "vy (heap (reset_forces w) r) = vy (heap w r)"
  unfolding reset_forces_def same_geometry_def
  by (simp_all add: reset_fold reset_force_def)

lemma pair_step_on_fields:
  assumes g: "same_geometry w0 w" and p: "pair_force a b w = Inr w'"
  shows "fx (heap w' r) = fx (heap w r)
          + (if r = a then fst (spec_pair_force (heap w0 a) (heap w0 b)) else 0)
          + (if r = b then fst (spec_pair_force (heap w0 b) (heap w0 a)) else 0)"
    and "fy (heap w' r) = fy (heap w r)
          + (if r = a then snd (spec_pair_force (heap w0 a) (heap w0 b)) else 0)
          + (if r = b then snd (spec_pair_force (heap w0 b) (heap w0 a)) else 0)"
    and "vx (heap w' r) = vx (heap w r)
          + (if r = a then fst (spec_pair_force (heap w0 a) (heap w0 b)) / mass (heap w0 a) else 0)
          + (if r = b then fst (spec_pair_force (heap w0 b) (heap w0 a)) / mass (heap w0 b) else 0)"
    and "vy (heap w' r) = vy (heap w r)
          + (if r = a then snd (spec_pair_force (heap w0 a) (heap w0 b)) / mass (heap w0 a) else 0)
          + (if r = b then snd (spec_pair_force (heap w0 b) (heap w0 a)) / mass (heap w0 b) else 0)"
proof -
  have m: "mass (heap w a) = mass (heap w0 a)" "mass (heap w b) = mass (heap w0 b)"
    using g by (simp_all add: same_geometry_def)
  show "fx (heap w' r) = fx (heap w r)
          + (if r = a then fst (spec_pair_force (heap w0 a) (heap w0 b)) else 0)
          + (if r = b then fst (spec_pair_force (heap w0 b) (heap w0 a)) else 0)"
    using pair_force_effect(3)[OF p, of r] unfolding same_geometry_force[OF g] .
  show "fy (heap w' r) = fy (heap w r)
          + (if r = a then snd (spec_pair_force (heap w0 a) (heap w0 b)) else 0)
          + (if r = b then snd (spec_pair_force (heap w0 b) (heap w0 a)) else 0)"
    using pair_force_effect(4)[OF p, of r] unfolding same_geometry_force[OF g] .
  show "vx (heap w' r) = vx (heap w r)
          + (if r = a then fst (spec_pair_force (heap w0 a) (heap w0 b)) / mass (heap w0 a) else 0)
          + (if r = b then fst (spec_pair_force (heap w0 b) (heap w0 a)) / mass (heap w0 b) else 0)"
    using pair_force_effect(5)[OF p, of r] unfolding same_geometry_force[OF g] m .
  show "vy (heap w' r) = vy (heap w r)
          + (if r = a then snd (spec_pair_force (heap w0 a) (heap w0 b)) / mass (heap w0 a) else 0)
          + (if r = b then snd (spec_pair_force (heap w0 b) (heap w0 a)) / mass (heap w0 b) else 0)"
    using pair_force_effect(6)[OF p, of r] unfolding same_geometry_force[OF g] m .
qed

lemma sum_list_divide:
  fixes c :: real
  shows "sum_list (map (\<lambda>q. f q / c) xs) = sum_list (map f xs) / c"
  by (induction xs) (simp_all add: add_divide_distrib)

text \<open>The pass: after the reset and the pair loops over a population without repetitions
  and without zero masses, the accumulator of each atom is the sum of the pair forces
  from all atoms of the population, and its velocity has grown by that sum over its
  mass.\<close>

lemma force_pass_sums:
  assumes d: "distinct (atoms w)" and m: "\<forall>r\<in>set (atoms w). mass (heap w r) \<noteq> 0"
  shows "\<exists>w'. force_pass w = Inr w' \<and> atoms w' = atoms w
    \<and> (\<forall>r\<in>set (atoms w).
          fx (heap w' r) = (\<Sum>q\<leftarrow>atoms w. fst (spec_pair_force (heap w r) (heap w q)))
        \<and> fy (heap w' r) = (\<Sum>q\<leftarrow>atoms w. snd (spec_pair_force (heap w r) (heap w q)))
        \<and> vx (heap w' r) = vx (heap w r)
            + (\<Sum>q\<leftarrow>atoms w. fst (spec_pair_force (heap w r) (heap w q))) / mass (heap w r)
        \<and> vy (heap w' r) = vy (heap w r)
            + (\<Sum>q\<leftarrow>atoms w. snd (spec_pair_force (heap w r) (heap w q))) / mass (heap w r))"
proof -
  let ?w1 = "reset_forces w"
  have g: "same_geometry w ?w1" by (rule reset_forces_fields(2))
  have a1: "atoms ?w1 = atoms w" by (rule reset_forces_fields(1))
  from outer_succeeds[OF g m] obtain w' where
    run: "pair_force_outer (atoms w) ?w1 = Inr w'" by blast
  then have fp: "force_pass w = Inr w'" by (simp add: force_pass_def Let_def a1)
  have aw: "atoms w' = atoms w" using outer_geometry[OF run] a1 by simp
  have "\<forall>r\<in>set (atoms w).
          fx (heap w' r) = (\<Sum>q\<leftarrow>atoms w. fst (spec_pair_force (heap w r) (heap w q)))
        \<and> fy (heap w' r) = (\<Sum>q\<leftarrow>atoms w. snd (spec_pair_force (heap w r) (heap w q)))
        \<and> vx (heap w' r) = vx (heap w r)
            + (\<Sum>q\<leftarrow>atoms w. fst (spec_pair_force (heap w r) (heap w q))) / mass (heap w r)
        \<and> vy (heap w' r) = vy (heap w r)
            + (\<Sum>q\<leftarrow>atoms w. snd (spec_pair_force (heap w r) (heap w q))) / mass (heap w r)"
  proof
    fix r assume r: "r \<in> set (atoms w)"
    have X: "fx (heap w' r) = fx (heap ?w1 r)
        + (if r \<in> set (atoms w)
           then sum_list (map (\<lambda>q. fst (spec_pair_force (heap w r) (heap w q))) (atoms w)) else 0)"
      by (rule outer_effect[of w fx "\<lambda>a b. fst (spec_pair_force (heap w a) (heap w b))",
            OF pair_step_on_fields(1) _ g d run]) simp_all
    have Y: "fy (heap w' r) = fy (heap ?w1 r)
        + (if r \<in> set (atoms w)
           then sum_list (map (\<lambda>q. snd (spec_pair_force (heap w r) (heap w q))) (atoms w)) else 0)"
      by (rule outer_effect[of w fy "\<lambda>a b. snd (spec_pair_force (heap w a) (heap w b))",
            OF pair_step_on_fields(2) _ g d run]) simp_all
    have VX: "vx (heap w' r) = vx (heap ?w1 r)
        + (if r \<in> set (atoms w)
           then sum_list (map (\<lambda>q. fst (spec_pair_force (heap w r) (heap w q)) / mass (heap w r))
                  (atoms w)) else 0)"
      by (rule outer_effect[of w vx
            "\<lambda>a b. fst (spec_pair_force (heap w a) (heap w b)) / mass (heap w a)",
            OF pair_step_on_fields(3) _ g d run]) simp_all
    have VY: "vy (heap w' r) = vy (heap ?w1 r)
        + (if r \<in> set (atoms w)
           then sum_list (map (\<lambda>q. snd (spec_pair_force (heap w r) (heap w q)) / mass (heap w r))
                  (atoms w)) else 0)"
      by (rule outer_effect[of w vy
            "\<lambda>a b. snd (spec_pair_force (heap w a) (heap w b)) / mass (heap w a)",
            OF pair_step_on_fields(4) _ g d run]) simp_all
    show "fx (heap w' r) = (\<Sum>q\<leftarrow>atoms w. fst (spec_pair_force (heap w r) (heap w q)))
        \<and> fy (heap w' r) = (\<Sum>q\<leftarrow>atoms w. snd (spec_pair_force (heap w r) (heap w q)))
        \<and> vx (heap w' r) = vx (heap w r)
            + (\<Sum>q\<leftarrow>atoms w. fst (spec_pair_force (heap w r) (heap w q))) / mass (heap w r)
        \<and> vy (heap w' r) = vy (heap w r)
            + (\<Sum>q\<leftarrow>atoms w. snd (spec_pair_force (heap w r) (heap w q))) / mass (heap w r)"
      unfolding X Y VX VY using r
      by (simp add: reset_forces_fields sum_list_divide)
  qed
  with fp aw show ?thesis by blast
qed

lemma spec_pair_force_formula:
  "spec_pair_force (heap w a) (heap w b) =
     (if center_distance w a b = 0 \<or> center_distance w a b > FORCE_THRESHOLD then (0, 0)
      else (FORCE_SCALE
              * (GRAVITY * mass (heap w a) * mass (heap w b) / (center_distance w a b)\<^sup>2
                 - (if charge (heap w a) = 0 \<or> charge (heap w b) = 0 then 0
                    else COULOMB * charge (heap w a) * charge (heap w b)
                           / (center_distance w a b)\<^sup>2))
              * normal_x w a b,
            FORCE_SCALE
              * (GRAVITY * mass (heap w a) * mass (heap w b) / (center_distance w a b)\<^sup>2
                 - (if charge (heap w a) = 0 \<or> charge (heap w b) = 0 then 0
                    else COULOMB * charge (heap w a) * charge (heap w b)
                           / (center_distance w a b)\<^sup>2))
              * normal_y w a b))"
  unfolding spec_pair_force_def Let_def normal_x_def normal_y_def center_distance_def ..

text \<open>
  Claim C7. \<open>spec_pair_force p q\<close> is the force of the claim: nothing when the distance
  is 0 or beyond the threshold, otherwise \<open>FORCE_SCALE * (G m\<^sub>a m\<^sub>b / d\<^sup>2 - K q\<^sub>a q\<^sub>b / d\<^sup>2)\<close>
  (the electrostatic term 0 when either charge is 0) times the unit vector from \<open>a\<close> to
  \<open>b\<close>; the force on \<open>b\<close> from \<open>a\<close> is its opposite. The body of the pair loop skips a pair
  at distance 0 or out of range, and otherwise (no mass being zero, on which
  \<^verbatim>\<open>apply_force\<close> would divide by zero) applies that force to \<open>a\<close> and its opposite to \<open>b\<close>
  through \<^verbatim>\<open>apply_force\<close> (\<open>pushed\<close>: the accumulator grows by the force, the velocity by
  the force over the mass). The loops visit every unordered pair once: after the pass
  over a population in which every object occurs once, every atom's accumulator is the
  sum of these forces over all other atoms.
\<close>

theorem pairwise_force_pass:
  "spec_pair_force (heap w a) (heap w b) =
     (if center_distance w a b = 0 \<or> center_distance w a b > FORCE_THRESHOLD then (0, 0)
      else (FORCE_SCALE
              * (GRAVITY * mass (heap w a) * mass (heap w b) / (center_distance w a b)\<^sup>2
                 - (if charge (heap w a) = 0 \<or> charge (heap w b) = 0 then 0
                    else COULOMB * charge (heap w a) * charge (heap w b)
                           / (center_distance w a b)\<^sup>2))
              * normal_x w a b,
            FORCE_SCALE
              * (GRAVITY * mass (heap w a) * mass (heap w b) / (center_distance w a b)\<^sup>2
                 - (if charge (heap w a) = 0 \<or> charge (heap w b) = 0 then 0
                    else COULOMB * charge (heap w a) * charge (heap w b)
                           / (center_distance w a b)\<^sup>2))
              * normal_y w a b))
   \<and> spec_pair_force (heap w b) (heap w a) =
       (- fst (spec_pair_force (heap w a) (heap w b)),
        - snd (spec_pair_force (heap w a) (heap w b)))
   \<and> (center_distance w a b = 0 \<or> center_distance w a b > FORCE_THRESHOLD \<longrightarrow>
        pair_force a b w = Inr w)
   \<and> (mass (heap w a) \<noteq> 0 \<and> mass (heap w b) \<noteq> 0 \<longrightarrow>
        pair_force a b w =
          Inr (modify b (pushed (- fst (spec_pair_force (heap w a) (heap w b)))
                                (- snd (spec_pair_force (heap w a) (heap w b))))
              (modify a (pushed (fst (spec_pair_force (heap w a) (heap w b)))
                                (snd (spec_pair_force (heap w a) (heap w b)))) w)))
   \<and> (distinct (atoms w) \<and> (\<forall>r\<in>set (atoms w). mass (heap w r) \<noteq> 0) \<longrightarrow>
        (\<exists>w'. force_pass w = Inr w' \<and> atoms w' = atoms w
          \<and> (\<forall>r\<in>set (atoms w).
               fx (heap w' r) = (\<Sum>q\<leftarrow>atoms w. fst (spec_pair_force (heap w r) (heap w q)))
             \<and> fy (heap w' r) = (\<Sum>q\<leftarrow>atoms w. snd (spec_pair_force (heap w r) (heap w q)))
             \<and> vx (heap w' r) = vx (heap w r)
                 + (\<Sum>q\<leftarrow>atoms w. fst (spec_pair_force (heap w r) (heap w q))) / mass (heap w r)
             \<and> vy (heap w' r) = vy (heap w r)
                 + (\<Sum>q\<leftarrow>atoms w. snd (spec_pair_force (heap w r) (heap w q))) / mass (heap w r))))"
proof (intro conjI impI)
  show "spec_pair_force (heap w a) (heap w b) =
     (if center_distance w a b = 0 \<or> center_distance w a b > FORCE_THRESHOLD then (0, 0)
      else (FORCE_SCALE
              * (GRAVITY * mass (heap w a) * mass (heap w b) / (center_distance w a b)\<^sup>2
                 - (if charge (heap w a) = 0 \<or> charge (heap w b) = 0 then 0
                    else COULOMB * charge (heap w a) * charge (heap w b)
                           / (center_distance w a b)\<^sup>2))
              * normal_x w a b,
            FORCE_SCALE
              * (GRAVITY * mass (heap w a) * mass (heap w b) / (center_distance w a b)\<^sup>2
                 - (if charge (heap w a) = 0 \<or> charge (heap w b) = 0 then 0
                    else COULOMB * charge (heap w a) * charge (heap w b)
                           / (center_distance w a b)\<^sup>2))
              * normal_y w a b))"
    by (rule spec_pair_force_formula)
  show "spec_pair_force (heap w b) (heap w a) =
       (- fst (spec_pair_force (heap w a) (heap w b)),
        - snd (spec_pair_force (heap w a) (heap w b)))"
    by (rule spec_pair_force_opposite)
  show "center_distance w a b = 0 \<or> center_distance w a b > FORCE_THRESHOLD \<Longrightarrow>
        pair_force a b w = Inr w"
    unfolding pair_force_unfold by simp
  show "mass (heap w a) \<noteq> 0 \<and> mass (heap w b) \<noteq> 0 \<Longrightarrow>
        pair_force a b w =
          Inr (modify b (pushed (- fst (spec_pair_force (heap w a) (heap w b)))
                                (- snd (spec_pair_force (heap w a) (heap w b))))
              (modify a (pushed (fst (spec_pair_force (heap w a) (heap w b)))
                                (snd (spec_pair_force (heap w a) (heap w b)))) w))"
  proof (cases "center_distance w a b = 0 \<or> center_distance w a b > FORCE_THRESHOLD")
    case True
    then have z: "spec_pair_force (heap w a) (heap w b) = (0, 0)"
      unfolding spec_pair_force_formula by simp
    have "modify b (pushed 0 0) (modify a (pushed 0 0) w) = w"
      by (simp add: modify_def)
    with True show ?thesis unfolding pair_force_unfold z by simp
  next
    case False
    assume "mass (heap w a) \<noteq> 0 \<and> mass (heap w b) \<noteq> 0"
    with False show ?thesis unfolding pair_force_unfold by simp
  qed
  show "distinct (atoms w) \<and> (\<forall>r\<in>set (atoms w). mass (heap w r) \<noteq> 0) \<Longrightarrow>
        (\<exists>w'. force_pass w = Inr w' \<and> atoms w' = atoms w
          \<and> (\<forall>r\<in>set (atoms w).
               fx (heap w' r) = (\<Sum>q\<leftarrow>atoms w. fst (spec_pair_force (heap w r) (heap w q)))
             \<and> fy (heap w' r) = (\<Sum>q\<leftarrow>atoms w. snd (spec_pair_force (heap w r) (heap w q)))
             \<and> vx (heap w' r) = vx (heap w r)
                 + (\<Sum>q\<leftarrow>atoms w. fst (spec_pair_force (heap w r) (heap w q))) / mass (heap w r)
             \<and> vy (heap w' r) = vy (heap w r)
                 + (\<Sum>q\<leftarrow>atoms w. snd (spec_pair_force (heap w r) (heap w q))) / mass (heap w r)))"
    using force_pass_sums[of w] by blast
qed

lemma demo_pair_forces:
  "spec_pair_force demo_red demo_red = (0, 0)"
  "spec_pair_force demo_food demo_food = (0, 0)"
  "spec_pair_force demo_red demo_food = (3 / 125000, 4 / 125000)"
  "spec_pair_force demo_food demo_red = (- (3 / 125000), - (4 / 125000))"
proof -
  show "spec_pair_force demo_red demo_red = (0, 0)"
    "spec_pair_force demo_food demo_food = (0, 0)" by simp_all
  have x: "atom_x demo_red = 0" "atom_y demo_red = 0" "atom_x demo_food = 3"
    "atom_y demo_food = 4" "mass demo_red = 1" "mass demo_food = 1 / 10"
    "charge demo_red = 1" "charge demo_food = 0"
    by (simp_all add: demo_defs)
  show rf: "spec_pair_force demo_red demo_food = (3 / 125000, 4 / 125000)"
    unfolding spec_pair_force_def Let_def x
    by (simp add: FORCE_THRESHOLD_def GRAVITY_def FORCE_SCALE_def)
  show "spec_pair_force demo_food demo_red = (- (3 / 125000), - (4 / 125000))"
    unfolding spec_pair_force_opposite[of demo_food demo_red] rf by simp
qed

theorem pairwise_force_pass_witness:
  "distinct (atoms demo_world)
   \<and> mass (heap demo_world 0) = 1 \<and> mass (heap demo_world 1) = 1 / 10
   \<and> pair_force 0 1 demo_world =
       Inr (modify 1 (pushed (- (3 / 125000)) (- (4 / 125000)))
           (modify 0 (pushed (3 / 125000) (4 / 125000)) demo_world))
   \<and> pair_force 0 0 demo_world = Inr demo_world
   \<and> (\<exists>w'. force_pass demo_world = Inr w'
        \<and> fx (heap w' 0) = 3 / 125000 \<and> fy (heap w' 0) = 4 / 125000
        \<and> fx (heap w' 1) = - (3 / 125000) \<and> fy (heap w' 1) = - (4 / 125000)
        \<and> vx (heap w' 0) = 3 / 125000 \<and> vx (heap w' 1) = - (3 / 12500))"
proof -
  have h: "heap demo_world 0 = demo_red" "heap demo_world 1 = demo_food"
    "atoms demo_world = [0, 1]"
    by (simp_all add: demo_world_def)
  have m: "mass (heap demo_world 0) = 1" "mass (heap demo_world 1) = 1 / 10"
    "vx (heap demo_world 0) = 0" "vx (heap demo_world 1) = 0"
    unfolding h by (simp_all add: demo_defs)
  have d: "distinct (atoms demo_world)" unfolding h by simp
  have mm: "mass (heap demo_world 0) \<noteq> 0 \<and> mass (heap demo_world 1) \<noteq> 0"
    unfolding m by simp
  have all: "distinct (atoms demo_world) \<and> (\<forall>r\<in>set (atoms demo_world). mass (heap demo_world r) \<noteq> 0)"
    using d mm unfolding h(3) by simp
  from mm pairwise_force_pass[of demo_world 0 1]
  have p: "pair_force 0 1 demo_world =
          Inr (modify 1 (pushed (- fst (spec_pair_force (heap demo_world 0) (heap demo_world 1)))
                                (- snd (spec_pair_force (heap demo_world 0) (heap demo_world 1))))
              (modify 0 (pushed (fst (spec_pair_force (heap demo_world 0) (heap demo_world 1)))
                                (snd (spec_pair_force (heap demo_world 0) (heap demo_world 1))))
                 demo_world))" by blast
  have cd0: "center_distance demo_world 0 0 = 0" by (simp add: center_distance_def)
  from cd0 pairwise_force_pass[of demo_world 0 0]
  have p0: "pair_force 0 0 demo_world = Inr demo_world" by blast
  from all pairwise_force_pass[of demo_world 0 1] obtain w' where
    fp: "force_pass demo_world = Inr w'"
    and s: "\<forall>r\<in>set (atoms demo_world).
               fx (heap w' r) = (\<Sum>q\<leftarrow>atoms demo_world.
                                   fst (spec_pair_force (heap demo_world r) (heap demo_world q)))
             \<and> fy (heap w' r) = (\<Sum>q\<leftarrow>atoms demo_world.
                                   snd (spec_pair_force (heap demo_world r) (heap demo_world q)))
             \<and> vx (heap w' r) = vx (heap demo_world r)
                 + (\<Sum>q\<leftarrow>atoms demo_world.
                      fst (spec_pair_force (heap demo_world r) (heap demo_world q)))
                   / mass (heap demo_world r)
             \<and> vy (heap w' r) = vy (heap demo_world r)
                 + (\<Sum>q\<leftarrow>atoms demo_world.
                      snd (spec_pair_force (heap demo_world r) (heap demo_world q)))
                   / mass (heap demo_world r)"
    by blast
  have hs: "heap demo_world (Suc 0) = demo_food" by (simp add: demo_world_def)
  have in0: "(0::nat) \<in> set (atoms demo_world)" and in1: "(1::nat) \<in> set (atoms demo_world)"
    unfolding h by simp_all
  have v0: "fx (heap w' 0) = 3 / 125000 \<and> fy (heap w' 0) = 4 / 125000
        \<and> vx (heap w' 0) = 3 / 125000"
    using bspec[OF s in0] unfolding h(3) m by (simp add: h hs demo_pair_forces)
  have v1: "fx (heap w' 1) = - (3 / 125000) \<and> fy (heap w' 1) = - (4 / 125000)
        \<and> vx (heap w' 1) = - (3 / 12500)"
    using bspec[OF s in1] unfolding h(3) m by (simp add: h hs demo_pair_forces)
  from fp v0 v1 have ex: "\<exists>w'. force_pass demo_world = Inr w'
        \<and> fx (heap w' 0) = 3 / 125000 \<and> fy (heap w' 0) = 4 / 125000
        \<and> fx (heap w' 1) = - (3 / 125000) \<and> fy (heap w' 1) = - (4 / 125000)
        \<and> vx (heap w' 0) = 3 / 125000 \<and> vx (heap w' 1) = - (3 / 12500)" by blast
  from d m(1,2) p[unfolded h demo_pair_forces fst_conv snd_conv] p0 ex
  show ?thesis by blast
qed

end
